theory Spec2Isabelle
  imports Main "HOL-Library.Sublist" "HOL-Library.List_Lexorder" "HOL-Library.Char_ord"
    "HOL-Library.Multiset"
begin

section \<open>JavaScript values and strings\<close>

text \<open>
  The helpers of the server (\<open>src/helpers.js\<close>) and its tool handlers (\<open>src/tools.js\<close>)
  are embedded as HOL functions. Tool arguments and the optional content sections of a
  component are dynamically typed in the source, so they are values of \<open>jsval\<close>; numbers
  are the integers (those a double holds exactly) plus \<open>NaN\<close>. A string is the list of
  its code units, restricted to the range 0..255 (the Latin-1 block), on which
  \<open>toLowerCase\<close> and \<open>trim\<close> are written out in full.
\<close>

datatype jsval =
    JUndefined
  | JNull
  | JBool bool
  | JNum int
  | JNaN
  | JStr string
  | JArr "jsval list"
  | JObj "(string \<times> jsval) list"

text \<open>
  What the model can answer: a value, a thrown \<open>TypeError\<close> with its message (as V8
  words it, the engine of the Node.js releases that accept the import attribute in
  \<open>helpers.js\<close>), or \<open>Unmodelled\<close> when the input leaves the fragment of the host
  language that is written out here (regular-expression syntax beyond literal
  characters and the dot; numeric conversion of strings, arrays and objects).
\<close>

datatype failure = TypeError string | Unmodelled

text \<open>ToBoolean.\<close>

fun truthy :: "jsval \<Rightarrow> bool" where
  "truthy JUndefined = False"
| "truthy JNull = False"
| "truthy (JBool b) = b"
| "truthy (JNum n) = (n \<noteq> 0)"
| "truthy JNaN = False"
| "truthy (JStr s) = (s \<noteq> [])"
| "truthy (JArr xs) = True"
| "truthy (JObj kvs) = True"

text \<open>\<open>String.prototype.toLowerCase\<close> on code units 0..255: A-Z and the capital letters
  0xC0..0xDE except the multiplication sign 0xD7 move up by 32.\<close>

definition toLowerChar :: "char \<Rightarrow> char" where
  "toLowerChar c =
     (let n = (of_char c :: nat)
      in if (65 \<le> n \<and> n \<le> 90) \<or> (192 \<le> n \<and> n \<le> 222 \<and> n \<noteq> 215)
         then char_of (n + 32) else c)"

definition toLowerCase :: "string \<Rightarrow> string" where
  "toLowerCase s = map toLowerChar s"

text \<open>\<open>String.prototype.trim\<close>: white space and line terminators below 256 are
  TAB, LF, VT, FF, CR, SPACE and NBSP.\<close>

definition isWhiteSpace :: "char \<Rightarrow> bool" where
  "isWhiteSpace c = ((of_char c :: nat) \<in> {9, 10, 11, 12, 13, 32, 160})"

definition trim :: "string \<Rightarrow> string" where
  "trim s = rev (dropWhile isWhiteSpace (rev (dropWhile isWhiteSpace s)))"

text \<open>\<open>String.prototype.includes\<close>: the needle occurs at some position of the subject.\<close>

fun str_includes :: "string \<Rightarrow> string \<Rightarrow> bool" where
  "str_includes [] needle = (needle = [])"
| "str_includes (c # cs) needle = (prefix needle (c # cs) \<or> str_includes cs needle)"

section \<open>The document collection\<close>

text \<open>
  Modelled from the spec: the shape of \<open>data/content.json\<close>, which is not part of the
  sources. The collection itself is a parameter \<open>content\<close> of every function. A platform
  key maps to its categories in stored order, a category has a name, a label and
  possibly children, a component has a name, a label and optional sections of any JSON
  type (\<open>JUndefined\<close> when the key is absent).
\<close>

record entry =
  name :: string
  label :: string

record component = entry +
  generalNotes :: jsval
  gherkin :: jsval
  condensed :: jsval
  developerNotes :: jsval
  androidDeveloperNotes :: jsval
  iosDeveloperNotes :: jsval
  videos :: jsval

record category = entry +
  children :: "component list option"

type_synonym content = "string \<rightharpoonup> category list"

text \<open>
  \<open>content[platform]\<close> reads an own key of the collection first and then the keys every
  object inherits from \<open>Object.prototype\<close>. An inherited value is a function (for
  \<open>__proto__\<close> the prototype itself): truthy, not iterable and without a \<open>map\<close> method, so
  \<open>for (... of platformData)\<close> and \<open>platformData.map\<close> throw on it.
\<close>

definition inheritedKeys :: "string list" where
  "inheritedKeys =
     [''constructor'', ''__defineGetter__'', ''__defineSetter__'', ''hasOwnProperty'',
      ''__lookupGetter__'', ''__lookupSetter__'', ''isPrototypeOf'', ''propertyIsEnumerable'',
      ''toString'', ''valueOf'', ''__proto__'', ''toLocaleString'']"

definition notIterable :: failure where
  "notIterable = TypeError ''platformData is not iterable''"

text \<open>The object \<open>{...component, category: category.label, categoryName: category.name}\<close>
  that \<open>findComponent\<close> returns: the component's record extended by two fields.\<close>

record resolved = component +
  category :: string
  categoryName :: string

definition withCategory :: "category \<Rightarrow> component \<Rightarrow> resolved" where
  "withCategory cat c =
     component.extend c (resolved.fields (label cat) (name cat))"

section \<open>findComponent\<close>

text \<open>
  Both passes of \<open>findComponent\<close> are the same double loop with a different test; the
  loop over a category's children and the loop over the categories are \<open>scanChildren\<close> and
  \<open>scanCategories\<close>. A category without \<open>children\<close> is skipped by \<open>if (category.children)\<close>.
\<close>

fun scanChildren :: "(component \<Rightarrow> bool) \<Rightarrow> category \<Rightarrow> component list \<Rightarrow> resolved option" where
  "scanChildren test cat [] = None"
| "scanChildren test cat (c # cs) =
     (if test c then Some (withCategory cat c) else scanChildren test cat cs)"

fun scanCategories :: "(component \<Rightarrow> bool) \<Rightarrow> category list \<Rightarrow> resolved option" where
  "scanCategories test [] = None"
| "scanCategories test (cat # cats) =
     (case children cat of
        None \<Rightarrow> scanCategories test cats
      | Some cs \<Rightarrow>
          (case scanChildren test cat cs of
             Some r \<Rightarrow> Some r
           | None \<Rightarrow> scanCategories test cats))"

definition exactTest :: "string \<Rightarrow> component \<Rightarrow> bool" where
  "exactTest normalizedName c = (toLowerCase (name c) = normalizedName)"

definition partialTest :: "string \<Rightarrow> component \<Rightarrow> bool" where
  "partialTest normalizedName c =
     (str_includes (toLowerCase (name c)) normalizedName \<or>
      str_includes (toLowerCase (label c)) normalizedName)"

text \<open>Calling \<open>.toLowerCase()\<close> on an argument: only a string has the method.\<close>

definition quote :: string where
  "quote = [CHR 0x27]"

fun callToLowerCase :: "string \<Rightarrow> jsval \<Rightarrow> failure + string" where
  "callToLowerCase var (JStr s) = Inr (toLowerCase s)"
| "callToLowerCase var JUndefined =
     Inl (TypeError (''Cannot read properties of undefined (reading '' @ quote @ ''toLowerCase'' @ quote @ '')''))"
| "callToLowerCase var JNull =
     Inl (TypeError (''Cannot read properties of null (reading '' @ quote @ ''toLowerCase'' @ quote @ '')''))"
| "callToLowerCase var v = Inl (TypeError (var @ ''.toLowerCase is not a function''))"

definition findComponent :: "content \<Rightarrow> string \<Rightarrow> jsval \<Rightarrow> failure + resolved option" where
  "findComponent content platform componentName =
     (case content platform of
        None \<Rightarrow>
          if platform \<in> set inheritedKeys then
            (case callToLowerCase ''componentName'' componentName of
               Inl e \<Rightarrow> Inl e
             | Inr lowered \<Rightarrow> Inl notIterable)
          else Inr None
      | Some platformData \<Rightarrow>
          (case callToLowerCase ''componentName'' componentName of
             Inl e \<Rightarrow> Inl e
           | Inr lowered \<Rightarrow>
               (let normalizedName = trim lowered
                in case scanCategories (exactTest normalizedName) platformData of
                     Some r \<Rightarrow> Inr (Some r)
                   | None \<Rightarrow> Inr (scanCategories (partialTest normalizedName) platformData))))"

section \<open>listComponents and listCategories\<close>

record summary =
  sm_name :: string
  sm_label :: string
  sm_category :: string
  sm_categoryName :: string

definition summarize :: "category \<Rightarrow> component \<Rightarrow> summary" where
  "summarize cat child =
     \<lparr>sm_name = name child, sm_label = label child,
      sm_category = label cat, sm_categoryName = name cat\<rparr>"

text \<open>The children a category contributes to a scan: none when \<open>children\<close> is absent.\<close>

definition childrenOf :: "category \<Rightarrow> component list" where
  "childrenOf cat = (case children cat of None \<Rightarrow> [] | Some cs \<Rightarrow> cs)"

text \<open>The loop of \<open>listComponents\<close>; its parameter \<open>category\<close> is \<open>categoryArg\<close> here.
  With a truthy filter, \<open>category.toLowerCase()\<close> is called at every category, and throws
  when the filter is not a string.\<close>

fun listFrom :: "jsval \<Rightarrow> category list \<Rightarrow> failure + summary list" where
  "listFrom categoryArg [] = Inr []"
| "listFrom categoryArg (cat # cats) =
     (if truthy categoryArg then
        (case callToLowerCase ''category'' categoryArg of
           Inl e \<Rightarrow> Inl e
         | Inr wanted \<Rightarrow>
             if toLowerCase (name cat) \<noteq> wanted then listFrom categoryArg cats
             else (case listFrom categoryArg cats of
                     Inl e \<Rightarrow> Inl e
                   | Inr rest \<Rightarrow> Inr (map (summarize cat) (childrenOf cat) @ rest)))
      else (case listFrom categoryArg cats of
              Inl e \<Rightarrow> Inl e
            | Inr rest \<Rightarrow> Inr (map (summarize cat) (childrenOf cat) @ rest)))"

definition listComponents :: "content \<Rightarrow> string \<Rightarrow> jsval \<Rightarrow> failure + summary list" where
  "listComponents content platform categoryArg =
     (case content platform of
        None \<Rightarrow> if platform \<in> set inheritedKeys then Inl notIterable else Inr []
      | Some platformData \<Rightarrow>
          listFrom (if categoryArg = JUndefined then JNull else categoryArg) platformData)"

record categoryInfo =
  ci_name :: string
  ci_label :: string
  componentCount :: nat

definition listCategories :: "content \<Rightarrow> string \<Rightarrow> failure + categoryInfo list" where
  "listCategories content platform =
     (case content platform of
        None \<Rightarrow>
          if platform \<in> set inheritedKeys
          then Inl (TypeError ''platformData.map is not a function'') else Inr []
      | Some platformData \<Rightarrow>
          Inr (map (\<lambda>cat. \<lparr>ci_name = name cat, ci_label = label cat,
                      componentCount = (case children cat of None \<Rightarrow> 0 | Some cs \<Rightarrow> length cs)\<rparr>)
                 platformData))"

section \<open>searchComponents\<close>

text \<open>
  \<open>lowerValue.match(new RegExp(normalizedQuery, 'g'))\<close> hands the query to the regular
  expression engine as a pattern. The pattern language is written out for patterns of
  literal characters and the dot (any code unit but LF and CR); every other syntax
  character makes the answer \<open>Unmodelled\<close>. A global match scans from the left and resumes
  behind each match, one code unit further after an empty match.
\<close>

definition unmodelledSyntax :: "char list" where
  "unmodelledSyntax = CHR 0x5C # ''^$*+?()[]{}|''"

definition atomMatches :: "char \<Rightarrow> char \<Rightarrow> bool" where
  "atomMatches p c = (if p = CHR ''.'' then c \<noteq> CHR 0x0A \<and> c \<noteq> CHR 0x0D else p = c)"

fun matchesAt :: "string \<Rightarrow> string \<Rightarrow> bool" where
  "matchesAt [] s = True"
| "matchesAt (p # ps) [] = False"
| "matchesAt (p # ps) (c # cs) = (atomMatches p c \<and> matchesAt ps cs)"

text \<open>\<open>countFrom pattern k s\<close>: the matches still to come in \<open>s\<close> when the next \<open>k\<close> code
  units belong to the match just found.\<close>

fun countFrom :: "string \<Rightarrow> nat \<Rightarrow> string \<Rightarrow> nat" where
  "countFrom pattern k [] = (if k = 0 \<and> pattern = [] then 1 else 0)"
| "countFrom pattern (Suc k) (c # cs) = countFrom pattern k cs"
| "countFrom pattern 0 (c # cs) =
     (if matchesAt pattern (c # cs) then 1 + countFrom pattern (length pattern - 1) cs
      else countFrom pattern 0 cs)"

definition regexMatchCount :: "string \<Rightarrow> string \<Rightarrow> failure + nat" where
  "regexMatchCount pattern s =
     (if \<exists>c \<in> set pattern. c \<in> set unmodelledSyntax then Inl Unmodelled
      else Inr (countFrom pattern 0 s))"

definition searchFields :: "(string \<times> int) list" where
  "searchFields =
     [(''label'', 10), (''name'', 10), (''generalNotes'', 5), (''gherkin'', 3),
      (''condensed'', 3), (''developerNotes'', 2), (''androidDeveloperNotes'', 2),
      (''iosDeveloperNotes'', 2)]"

text \<open>\<open>component[field]\<close> for the fields of \<open>searchFields\<close>.\<close>

definition fieldValue :: "string \<Rightarrow> component \<Rightarrow> jsval" where
  "fieldValue field c =
     (if field = ''label'' then JStr (label c)
      else if field = ''name'' then JStr (name c)
      else if field = ''generalNotes'' then generalNotes c
      else if field = ''gherkin'' then gherkin c
      else if field = ''condensed'' then condensed c
      else if field = ''developerNotes'' then developerNotes c
      else if field = ''androidDeveloperNotes'' then androidDeveloperNotes c
      else if field = ''iosDeveloperNotes'' then iosDeveloperNotes c
      else JUndefined)"

text \<open>The loop over the weighted fields, threading \<open>score\<close> and \<open>matches\<close>.\<close>

fun scoreFields ::
  "string \<Rightarrow> component \<Rightarrow> (string \<times> int) list \<Rightarrow> int \<times> string list \<Rightarrow> failure + int \<times> string list" where
  "scoreFields normalizedQuery c [] acc = Inr acc"
| "scoreFields normalizedQuery c ((field, weight) # rest) (score, matches) =
     (case fieldValue field c of
        JStr v \<Rightarrow>
          if v \<noteq> [] \<and> str_includes (toLowerCase v) normalizedQuery then
            (case regexMatchCount normalizedQuery (toLowerCase v) of
               Inl e \<Rightarrow> Inl e
             | Inr occurrences \<Rightarrow>
                 scoreFields normalizedQuery c rest
                   (score + weight + (int occurrences - 1), matches @ [field]))
          else scoreFields normalizedQuery c rest (score, matches)
      | _ \<Rightarrow> scoreFields normalizedQuery c rest (score, matches))"

record scored =
  sr_name :: string
  sr_label :: string
  sr_category :: string
  sr_categoryName :: string
  score :: int
  matchedFields :: "string list"
  sr_generalNotes :: jsval

fun searchChildren :: "string \<Rightarrow> category \<Rightarrow> component list \<Rightarrow> failure + scored list" where
  "searchChildren normalizedQuery cat [] = Inr []"
| "searchChildren normalizedQuery cat (c # cs) =
     (case scoreFields normalizedQuery c searchFields (0, []) of
        Inl e \<Rightarrow> Inl e
      | Inr (sc, matches) \<Rightarrow>
          (case searchChildren normalizedQuery cat cs of
             Inl e \<Rightarrow> Inl e
           | Inr rest \<Rightarrow>
               Inr (if sc > 0
                    then \<lparr>sr_name = name c, sr_label = label c, sr_category = label cat,
                          sr_categoryName = name cat, score = sc, matchedFields = matches,
                          sr_generalNotes = generalNotes c\<rparr> # rest
                    else rest)))"

fun searchCategories :: "string \<Rightarrow> category list \<Rightarrow> failure + scored list" where
  "searchCategories normalizedQuery [] = Inr []"
| "searchCategories normalizedQuery (cat # cats) =
     (case children cat of
        None \<Rightarrow> searchCategories normalizedQuery cats
      | Some cs \<Rightarrow>
          (case searchChildren normalizedQuery cat cs of
             Inl e \<Rightarrow> Inl e
           | Inr found \<Rightarrow>
               (case searchCategories normalizedQuery cats of
                  Inl e \<Rightarrow> Inl e
                | Inr rest \<Rightarrow> Inr (found @ rest))))"

text \<open>
  \<open>Array.prototype.sort\<close> is stable; with a consistent comparator its result is the
  one the insertion sort below computes. \<open>String.prototype.localeCompare\<close> depends on the
  host's collation and is a parameter \<open>localeCompare\<close> of the search.
\<close>

fun insertBy :: "('a \<Rightarrow> 'a \<Rightarrow> int) \<Rightarrow> 'a \<Rightarrow> 'a list \<Rightarrow> 'a list" where
  "insertBy cmp x [] = [x]"
| "insertBy cmp x (y # ys) = (if cmp x y \<le> 0 then x # y # ys else y # insertBy cmp x ys)"

definition sortBy :: "('a \<Rightarrow> 'a \<Rightarrow> int) \<Rightarrow> 'a list \<Rightarrow> 'a list" where
  "sortBy cmp xs = foldr (insertBy cmp) xs []"

definition compareResults :: "(string \<Rightarrow> string \<Rightarrow> int) \<Rightarrow> scored \<Rightarrow> scored \<Rightarrow> int" where
  "compareResults localeCompare a b =
     (if score b \<noteq> score a then score b - score a
      else localeCompare (sr_name a) (sr_name b))"

text \<open>ToIntegerOrInfinity of the \<open>end\<close> argument of \<open>slice\<close>, and \<open>slice(0, end)\<close>: a
  negative end counts from the end of the array.\<close>

fun toIntegerOrInfinity :: "jsval \<Rightarrow> failure + int" where
  "toIntegerOrInfinity (JNum n) = Inr n"
| "toIntegerOrInfinity JNaN = Inr 0"
| "toIntegerOrInfinity JUndefined = Inr 0"
| "toIntegerOrInfinity JNull = Inr 0"
| "toIntegerOrInfinity (JBool b) = Inr (if b then 1 else 0)"
| "toIntegerOrInfinity v = Inl Unmodelled"

definition sliceTo :: "'a list \<Rightarrow> int \<Rightarrow> 'a list" where
  "sliceTo xs e = (if e < 0 then take (nat (int (length xs) + e)) xs else take (nat e) xs)"

definition searchComponents ::
  "content \<Rightarrow> (string \<Rightarrow> string \<Rightarrow> int) \<Rightarrow> string \<Rightarrow> jsval \<Rightarrow> jsval \<Rightarrow> failure + scored list" where
  "searchComponents content localeCompare platform query maxResults =
     (case content platform of
        None \<Rightarrow>
          if platform \<in> set inheritedKeys \<and> truthy query then
            (case callToLowerCase ''query'' query of
               Inl e \<Rightarrow> Inl e
             | Inr lowered \<Rightarrow> Inl notIterable)
          else Inr []
      | Some platformData \<Rightarrow>
          if \<not> truthy query then Inr []
          else
            (case callToLowerCase ''query'' query of
               Inl e \<Rightarrow> Inl e
             | Inr lowered \<Rightarrow>
                 (case searchCategories (trim lowered) platformData of
                    Inl e \<Rightarrow> Inl e
                  | Inr results \<Rightarrow>
                      (case toIntegerOrInfinity (if maxResults = JUndefined then JNum 10 else maxResults) of
                         Inl e \<Rightarrow> Inl e
                       | Inr e \<Rightarrow> Inr (sliceTo (sortBy (compareResults localeCompare) results) e)))))"

section \<open>listComponentFormats and formatComponentOutput\<close>

record formats =
  fmt_gherkin :: bool
  fmt_condensed :: bool
  fmt_developerNotes :: bool
  fmt_androidDeveloperNotes :: bool
  fmt_iosDeveloperNotes :: bool
  fmt_videos :: bool
  fmt_generalNotes :: bool

record formatReport =
  fr_name :: string
  fr_label :: string
  fr_category :: string
  formats :: formats

definition listComponentFormats :: "content \<Rightarrow> string \<Rightarrow> jsval \<Rightarrow> failure + formatReport option" where
  "listComponentFormats content platform componentName =
     (case findComponent content platform componentName of
        Inl e \<Rightarrow> Inl e
      | Inr None \<Rightarrow> Inr None
      | Inr (Some component) \<Rightarrow>
          Inr (Some
            \<lparr>fr_name = name component, fr_label = label component,
             fr_category = category component,
             formats =
               \<lparr>fmt_gherkin = truthy (gherkin component),
                fmt_condensed = truthy (condensed component),
                fmt_developerNotes = truthy (developerNotes component),
                fmt_androidDeveloperNotes = truthy (androidDeveloperNotes component),
                fmt_iosDeveloperNotes = truthy (iosDeveloperNotes component),
                fmt_videos = truthy (videos component),
                fmt_generalNotes = truthy (generalNotes component)\<rparr>\<rparr>))"

text \<open>The object built by \<open>formatComponentOutput\<close>; a key that is not set reads as
  \<open>JUndefined\<close>. The second parameter defaults to \<open>true\<close> when it is \<open>undefined\<close>.\<close>

record formatted =
  out_name :: string
  out_label :: string
  out_category :: string
  out_generalNotes :: jsval
  out_gherkin :: jsval
  out_condensed :: jsval
  out_developerNotes :: jsval
  out_androidDeveloperNotes :: jsval
  out_iosDeveloperNotes :: jsval

definition keepIf :: "bool \<Rightarrow> jsval \<Rightarrow> jsval" where
  "keepIf b v = (if b then v else JUndefined)"

definition formatComponentOutput :: "resolved option \<Rightarrow> jsval \<Rightarrow> formatted option" where
  "formatComponentOutput component includeCodeExamples =
     (case component of
        None \<Rightarrow> None
      | Some c \<Rightarrow>
          (let include = (if includeCodeExamples = JUndefined then JBool True else includeCodeExamples)
           in Some
            \<lparr>out_name = name c, out_label = label c, out_category = category c,
             out_generalNotes = (if truthy (generalNotes c) then generalNotes c else JNull),
             out_gherkin = keepIf (truthy (gherkin c)) (gherkin c),
             out_condensed = keepIf (truthy (condensed c)) (condensed c),
             out_developerNotes =
               keepIf (truthy include \<and> truthy (developerNotes c)) (developerNotes c),
             out_androidDeveloperNotes =
               keepIf (truthy (androidDeveloperNotes c)) (androidDeveloperNotes c),
             out_iosDeveloperNotes =
               keepIf (truthy (iosDeveloperNotes c)) (iosDeveloperNotes c)\<rparr>))"

section \<open>The tool handlers\<close>

text \<open>
  A handler receives the argument object \<open>args\<close>, here the list of its keys and values
  (a key that is absent reads as \<open>JUndefined\<close>), and answers with
  \<open>{content: [{type: 'text', text}]}\<close>. Its body runs inside \<open>try\<close>; the \<open>catch\<close> turns a
  thrown error into a text made of a prefix and the error's message.
\<close>

datatype contentItem = TextContent string

type_synonym toolResult = "contentItem list"

definition textResponse :: "string \<Rightarrow> toolResult" where
  "textResponse text = [TextContent text]"

definition arg :: "(string \<times> jsval) list \<Rightarrow> string \<Rightarrow> jsval" where
  "arg args key = (case map_of args key of None \<Rightarrow> JUndefined | Some v \<Rightarrow> v)"

definition catchError :: "string \<Rightarrow> failure + toolResult \<Rightarrow> failure + toolResult" where
  "catchError lead r =
     (case r of
        Inl (TypeError message) \<Rightarrow> Inr (textResponse (lead @ message))
      | Inl Unmodelled \<Rightarrow> Inl Unmodelled
      | Inr x \<Rightarrow> Inr x)"

text \<open>ToString, as template literals, string concatenation and property keys apply it.
  Integers are written in decimal, which is what the host prints below \<open>10\<^sup>2\<^sup>1\<close>.\<close>

function natToString :: "nat \<Rightarrow> string" where
  "natToString n =
     (if n < 10 then [char_of (48 + n)]
      else natToString (n div 10) @ [char_of (48 + n mod 10)])"
  by pat_completeness auto
termination
  by (relation "measure id") auto

definition intToString :: "int \<Rightarrow> string" where
  "intToString i = (if i < 0 then CHR ''-'' # natToString (nat (- i)) else natToString (nat i))"

fun joinWith :: "string \<Rightarrow> string list \<Rightarrow> string" where
  "joinWith sep [] = []"
| "joinWith sep [x] = x"
| "joinWith sep (x # y # ys) = x @ sep @ joinWith sep (y # ys)"

fun toStringJs :: "jsval \<Rightarrow> string" where
  "toStringJs JUndefined = ''undefined''"
| "toStringJs JNull = ''null''"
| "toStringJs (JBool b) = (if b then ''true'' else ''false'')"
| "toStringJs (JNum n) = intToString n"
| "toStringJs JNaN = ''NaN''"
| "toStringJs (JStr s) = s"
| "toStringJs (JArr xs) =
     joinWith '',''
       (map (\<lambda>x. if x = JUndefined \<or> x = JNull then [] else toStringJs x) xs)"
| "toStringJs (JObj kvs) = ''[object Object]''"

definition nl :: string where
  "nl = [CHR 0x0A]"

definition dquote :: string where
  "dquote = [CHR 0x22]"

definition backtick :: string where
  "backtick = [CHR 0x60]"

text \<open>The suggestions of the "not found" answers: \<open>listComponents(platform)\<close> filtered by
  a callback that calls \<open>args.component.toLowerCase()\<close> at every element, cut to five.\<close>

fun filterSuggestions :: "jsval \<Rightarrow> summary list \<Rightarrow> failure + summary list" where
  "filterSuggestions wanted [] = Inr []"
| "filterSuggestions wanted (c # cs) =
     (case callToLowerCase ''args.component'' wanted of
        Inl e \<Rightarrow> Inl e
      | Inr lowered \<Rightarrow>
          (case filterSuggestions wanted cs of
             Inl e \<Rightarrow> Inl e
           | Inr rest \<Rightarrow>
               Inr (if str_includes (sm_name c) lowered \<or>
                       str_includes (toLowerCase (sm_label c)) lowered
                    then c # rest else rest)))"

definition suggestionLine :: "summary \<Rightarrow> string" where
  "suggestionLine s = ''- '' @ sm_label s @ '' ('' @ backtick @ sm_name s @ backtick @ '')''"

definition notFoundAnswer :: "content \<Rightarrow> string \<Rightarrow> string \<Rightarrow> jsval \<Rightarrow> failure + toolResult" where
  "notFoundAnswer content platform what wanted =
     (case listComponents content platform JUndefined of
        Inl e \<Rightarrow> Inl e
      | Inr allComponents \<Rightarrow>
          (case filterSuggestions wanted allComponents of
             Inl e \<Rightarrow> Inl e
           | Inr matching \<Rightarrow>
               (let suggestions = take 5 matching;
                    msg = what @ '' '' @ dquote @ toStringJs wanted @ dquote @ '' not found.''
                in Inr (textResponse
                     (if length suggestions > 0
                      then msg @ nl @ nl @ ''Did you mean:'' @ nl @
                           joinWith nl (map suggestionLine suggestions)
                      else msg)))))"

definition section_js :: "string \<Rightarrow> jsval \<Rightarrow> string \<Rightarrow> string" where
  "section_js heading v trailer = heading @ nl @ toStringJs v @ trailer"

definition get_web_component :: "content \<Rightarrow> (string \<times> jsval) list \<Rightarrow> failure + toolResult" where
  "get_web_component content args =
     catchError ''Error getting component: ''
       (case findComponent content ''web'' (arg args ''component'') of
          Inl e \<Rightarrow> Inl e
        | Inr None \<Rightarrow> notFoundAnswer content ''web'' ''Component'' (arg args ''component'')
        | Inr (Some component) \<Rightarrow>
            (let includeCode = (arg args ''include_code_examples'' \<noteq> JBool False)
             in case formatComponentOutput (Some component) (JBool includeCode) of
                  None \<Rightarrow> Inl (TypeError (''Cannot read properties of null (reading '' @ quote @ ''label'' @ quote @ '')''))
                | Some formatted \<Rightarrow>
                    Inr (textResponse
                      (''# '' @ out_label formatted @ nl @ nl @
                       ''**Category:** '' @ out_category formatted @ nl @
                       ''**Component ID:** '' @ backtick @ out_name formatted @ backtick @ nl @ nl @
                       (if truthy (out_generalNotes formatted)
                        then section_js ''## Overview'' (out_generalNotes formatted) (nl @ nl) else []) @
                       (if truthy (out_condensed formatted)
                        then section_js ''## Condensed Criteria'' (out_condensed formatted) (nl @ nl) else []) @
                       (if truthy (out_gherkin formatted)
                        then section_js ''## Gherkin Acceptance Criteria'' (out_gherkin formatted) (nl @ nl) else []) @
                       (if includeCode \<and> truthy (out_developerNotes formatted)
                        then section_js ''## Developer Notes & Code Examples'' (out_developerNotes formatted) nl
                        else [])))))"

definition get_native_component :: "content \<Rightarrow> (string \<times> jsval) list \<Rightarrow> failure + toolResult" where
  "get_native_component content args =
     catchError ''Error getting native component: ''
       (case findComponent content ''native'' (arg args ''component'') of
          Inl e \<Rightarrow> Inl e
        | Inr None \<Rightarrow> notFoundAnswer content ''native'' ''Native component'' (arg args ''component'')
        | Inr (Some component) \<Rightarrow>
            (let includeCode = (arg args ''include_code_examples'' \<noteq> JBool False)
             in Inr (textResponse
                  (''# '' @ label component @ '' (Native)'' @ nl @ nl @
                   ''**Category:** '' @ category component @ nl @
                   ''**Component ID:** '' @ backtick @ name component @ backtick @ nl @ nl @
                   (if truthy (generalNotes component)
                    then section_js ''## Overview'' (generalNotes component) (nl @ nl) else []) @
                   (if truthy (condensed component)
                    then section_js ''## Condensed Criteria'' (condensed component) (nl @ nl) else []) @
                   (if truthy (gherkin component)
                    then section_js ''## Gherkin Acceptance Criteria'' (gherkin component) (nl @ nl) else []) @
                   (if includeCode then
                      (if truthy (iosDeveloperNotes component)
                       then section_js ''## iOS Developer Notes (VoiceOver)'' (iosDeveloperNotes component) (nl @ nl)
                       else []) @
                      (if truthy (androidDeveloperNotes component)
                       then section_js ''## Android Developer Notes (TalkBack)'' (androidDeveloperNotes component) (nl @ nl)
                       else []) @
                      (if truthy (developerNotes component)
                       then section_js ''## General Developer Notes'' (developerNotes component) nl
                       else [])
                    else [])))))"














section \<open>Notions the properties are stated with\<close>

text \<open>The scan order of a platform: its categories in stored order, each with its
  children in stored order; a category without children contributes nothing.\<close>

definition scanOrder :: "category list \<Rightarrow> (category \<times> component) list" where
  "scanOrder cats = concat (map (\<lambda>cat. map (Pair cat) (childrenOf cat)) cats)"

text \<open>The first component in scan order that passes a test, with its category attached.\<close>

definition firstInScanOrder :: "(component \<Rightarrow> bool) \<Rightarrow> category list \<Rightarrow> resolved option" where
  "firstInScanOrder test cats =
     map_option (\<lambda>(cat, c). withCategory cat c) (find (\<lambda>(cat, c). test c) (scanOrder cats))"

text \<open>Names are unique within a platform, case-insensitively.\<close>

definition uniqueNames :: "category list \<Rightarrow> bool" where
  "uniqueNames cats = distinct (map (\<lambda>(cat, c). toLowerCase (name c)) (scanOrder cats))"

text \<open>A section is present when its key exists and its value is not falsy.\<close>

definition present :: "jsval \<Rightarrow> bool" where
  "present v =
     (v \<noteq> JUndefined \<and> v \<noteq> JNull \<and> v \<noteq> JBool False \<and> v \<noteq> JNum 0 \<and> v \<noteq> JNaN \<and> v \<noteq> JStr [])"

text \<open>The record \<open>searchComponents\<close> pushes for a component with a given score and
  matched fields.\<close>

definition hit :: "category \<Rightarrow> component \<Rightarrow> int \<Rightarrow> string list \<Rightarrow> scored" where
  "hit cat c sc matched =
     \<lparr>sr_name = name c, sr_label = label c, sr_category = label cat,
      sr_categoryName = name cat, score = sc, matchedFields = matched,
      sr_generalNotes = generalNotes c\<rparr>"

text \<open>
  All matches of a search, in scan order: every component of the platform whose score
  (as the loop over the weighted fields computes it) is above 0, with that score and
  those matched fields. There are none when the platform has no data or the query is
  not a non-empty string.
\<close>

definition scoreOf :: "string \<Rightarrow> component \<Rightarrow> int \<times> string list" where
  "scoreOf q c = (case scoreFields q c searchFields (0, []) of Inr r \<Rightarrow> r | Inl e \<Rightarrow> (0, []))"

definition allHits :: "content \<Rightarrow> string \<Rightarrow> jsval \<Rightarrow> scored list" where
  "allHits content P query =
     (case content P of
        None \<Rightarrow> []
      | Some cats \<Rightarrow>
          (case query of
             JStr s \<Rightarrow>
               map (\<lambda>(cat, c). hit cat c (fst (scoreOf (trim (toLowerCase s)) c))
                                         (snd (scoreOf (trim (toLowerCase s)) c)))
                 (filter (\<lambda>(cat, c). s \<noteq> [] \<and> 0 < fst (scoreOf (trim (toLowerCase s)) c))
                    (scanOrder cats))
           | _ \<Rightarrow> []))"

text \<open>
  The score as the specification words it. \<open>occurrenceCount needle hay\<close> counts the
  occurrences of \<open>needle\<close> in \<open>hay\<close> from the left without overlap (an empty needle once per
  position). A field matches when its value is a non-empty string whose lower-cased form
  contains the query; a matching field contributes its weight plus the occurrence count
  minus one.
\<close>

function occurrenceCount :: "string \<Rightarrow> string \<Rightarrow> nat" where
  "occurrenceCount needle hay =
     (if needle = [] then length hay + 1
      else if hay = [] then 0
      else if prefix needle hay then 1 + occurrenceCount needle (drop (length needle) hay)
      else occurrenceCount needle (tl hay))"
  by pat_completeness auto
termination
  by (relation "measure (\<lambda>(needle, hay). length hay)") auto

declare occurrenceCount.simps [simp del]

definition fieldMatches :: "string \<Rightarrow> component \<Rightarrow> string \<Rightarrow> bool" where
  "fieldMatches q c field =
     (case fieldValue field c of
        JStr v \<Rightarrow> v \<noteq> [] \<and> sublist q (toLowerCase v)
      | _ \<Rightarrow> False)"

definition claimedFieldScore :: "string \<Rightarrow> component \<Rightarrow> string \<times> int \<Rightarrow> int" where
  "claimedFieldScore q c fw =
     (case fieldValue (fst fw) c of
        JStr v \<Rightarrow>
          if fieldMatches q c (fst fw)
          then snd fw + (int (occurrenceCount q (toLowerCase v)) - 1) else 0
      | _ \<Rightarrow> 0)"

definition claimedScore :: "string \<Rightarrow> component \<Rightarrow> int" where
  "claimedScore q c = sum_list (map (claimedFieldScore q c) searchFields)"

definition claimedFields :: "string \<Rightarrow> component \<Rightarrow> string list" where
  "claimedFields q c = filter (fieldMatches q c) (map fst searchFields)"

text \<open>A query that the regular expression engine reads as itself: no dot and no other
  syntax character.\<close>

definition literalPattern :: "string \<Rightarrow> bool" where
  "literalPattern p = (\<forall>c \<in> set p. c \<noteq> CHR ''.'' \<and> c \<notin> set unmodelledSyntax)"

text \<open>Characters that stand for themselves in the expected texts below.\<close>

abbreviation LF :: char where
  "LF \<equiv> CHR 0x0A"

abbreviation BT :: char where
  "BT \<equiv> CHR 0x60"



text \<open>
  The expected answers of \<open>get_web_component\<close> and \<open>get_native_component\<close>. A section that
  is present is written as its heading, a line feed, its text and a gap; a section
  that is not present is not written. The sections that do not depend on
  \<open>include_code_examples\<close> are the title, the category, the identifier, the overview,
  the condensed criteria and the Gherkin criteria; the code-example sections are the
  developer notes.
\<close>

definition titled :: "string \<Rightarrow> jsval \<Rightarrow> string \<Rightarrow> string" where
  "titled heading v gap =
     (if present v
      then heading @ [LF] @ (case v of JStr s \<Rightarrow> s | _ \<Rightarrow> toStringJs v) @ gap
      else [])"

definition commonSections :: "resolved \<Rightarrow> string" where
  "commonSections c =
     ''**Category:** '' @ category c @ [LF] @
     ''**Component ID:** '' @ [BT] @ name c @ [BT, LF, LF] @
     titled ''## Overview'' (generalNotes c) [LF, LF] @
     titled ''## Condensed Criteria'' (condensed c) [LF, LF] @
     titled ''## Gherkin Acceptance Criteria'' (gherkin c) [LF, LF]"

definition webSections :: "resolved \<Rightarrow> string" where
  "webSections c = ''# '' @ label c @ [LF, LF] @ commonSections c"

definition webCodeExamples :: "resolved \<Rightarrow> string" where
  "webCodeExamples c = titled ''## Developer Notes & Code Examples'' (developerNotes c) [LF]"

definition nativeSections :: "resolved \<Rightarrow> string" where
  "nativeSections c = ''# '' @ label c @ '' (Native)'' @ [LF, LF] @ commonSections c"

definition nativeCodeExamples :: "resolved \<Rightarrow> string" where
  "nativeCodeExamples c =
     titled ''## iOS Developer Notes (VoiceOver)'' (iosDeveloperNotes c) [LF, LF] @
     titled ''## Android Developer Notes (TalkBack)'' (androidDeveloperNotes c) [LF, LF] @
     titled ''## General Developer Notes'' (developerNotes c) [LF]"






section \<open>A small collection\<close>

definition plain :: "string \<Rightarrow> string \<Rightarrow> component" where
  "plain n l =
     \<lparr>name = n, label = l, generalNotes = JUndefined, gherkin = JUndefined,
      condensed = JUndefined, developerNotes = JUndefined,
      androidDeveloperNotes = JUndefined, iosDeveloperNotes = JUndefined,
      videos = JUndefined\<rparr>"

definition button :: component where
  "button = (plain ''button'' ''Button'')
     \<lparr>generalNotes := JStr ''Buttons get focus. Focus is visible.'',
      gherkin := JStr ''Given a button'',
      developerNotes := JStr ''Use the button element''\<rparr>"

definition checkbox :: component where
  "checkbox = (plain ''checkbox'' ''Checkbox'')
     \<lparr>gherkin := JStr ''Given a checkbox with focus'', condensed := JStr [],
      videos := JStr ''checkbox.mp4''\<rparr>"

definition tooltip :: component where
  "tooltip = (plain ''tooltip'' ''Tooltip'') \<lparr>generalNotes := JStr ''Use sparingly.''\<rparr>"

definition switch :: component where
  "switch = (plain ''switch'' ''Switch'')
     \<lparr>developerNotes := JStr ''Keep the label short'',
      androidDeveloperNotes := JStr ''Use SwitchCompat'',
      iosDeveloperNotes := JStr ''Use UISwitch''\<rparr>"

definition picker :: component where
  "picker = (plain ''picker'' ''Picker'') \<lparr>iosDeveloperNotes := JStr ''Use UIPickerView''\<rparr>"

definition controls :: category where
  "controls = \<lparr>name = ''controls'', label = ''Controls'', children = Some [button, checkbox]\<rparr>"

definition drafts :: category where
  "drafts = \<lparr>name = ''drafts'', label = ''Drafts'', children = None\<rparr>"

definition overlays :: category where
  "overlays = \<lparr>name = ''overlays'', label = ''Overlays'', children = Some [tooltip]\<rparr>"

definition nativeControls :: category where
  "nativeControls = \<lparr>name = ''controls'', label = ''Controls'', children = Some [switch, picker]\<rparr>"

definition exampleContent :: content where
  "exampleContent =
     [''web'' \<mapsto> [controls, drafts, overlays], ''native'' \<mapsto> [nativeControls]]"

text \<open>A collection with twelve components, stored in descending order of name.\<close>

definition itemNames :: "string list" where
  "itemNames =
     [''item12'', ''item11'', ''item10'', ''item09'', ''item08'', ''item07'',
      ''item06'', ''item05'', ''item04'', ''item03'', ''item02'', ''item01'']"

definition shelf :: category where
  "shelf = \<lparr>name = ''shelf'', label = ''Shelf'',
             children = Some (map (\<lambda>n. plain n n) itemNames)\<rparr>"

definition shelfContent :: content where
  "shelfContent = [''web'' \<mapsto> [shelf]]"

text \<open>A comparator for the examples: strings ordered by their code units.\<close>

definition codeUnitCompare :: "string \<Rightarrow> string \<Rightarrow> int" where
  "codeUnitCompare a b = (if a < b then - 1 else if a = b then 0 else 1)"

section \<open>Strings\<close>

lemma isWhiteSpace_toLowerChar: "isWhiteSpace (toLowerChar c) = isWhiteSpace c"
  unfolding isWhiteSpace_def toLowerChar_def Let_def
  by (auto simp: of_char_of [where ?'a = nat] split: if_splits)

lemma dropWhile_white_toLowerCase:
  "dropWhile isWhiteSpace (toLowerCase s) = toLowerCase (dropWhile isWhiteSpace s)"
  unfolding toLowerCase_def
  by (induction s) (simp_all add: isWhiteSpace_toLowerChar)

lemma trim_toLowerCase: "trim (toLowerCase s) = toLowerCase (trim s)"
proof -
  have "rev (toLowerCase u) = toLowerCase (rev u)" for u
    by (simp add: toLowerCase_def rev_map)
  then show ?thesis
    unfolding trim_def by (simp add: dropWhile_white_toLowerCase)
qed

lemma dropWhile_all: "\<forall>x \<in> set xs. P x \<Longrightarrow> dropWhile P xs = []"
  by (induction xs) simp_all

lemma trim_padding:
  assumes pre: "\<forall>ch \<in> set pre. isWhiteSpace ch" and post: "\<forall>ch \<in> set post. isWhiteSpace ch"
  shows "trim (pre @ t @ post) = trim t"
proof (cases "\<forall>ch \<in> set t. isWhiteSpace ch")
  case True
  with pre post have "\<forall>x \<in> set (pre @ t @ post). isWhiteSpace x"
    by auto
  then have a: "dropWhile isWhiteSpace (pre @ t @ post) = []"
    by (rule dropWhile_all)
  from True have b: "dropWhile isWhiteSpace t = []"
    by (rule dropWhile_all)
  show ?thesis unfolding trim_def a b by simp
next
  case False
  then obtain x where x: "x \<in> set t" "\<not> isWhiteSpace x" by blast
  from pre have "dropWhile isWhiteSpace (pre @ t @ post) = dropWhile isWhiteSpace (t @ post)"
    by (simp add: dropWhile_append2)
  also from x have "\<dots> = dropWhile isWhiteSpace t @ post"
    by (rule dropWhile_append1)
  finally have a: "rev (dropWhile isWhiteSpace (pre @ t @ post)) =
      rev post @ rev (dropWhile isWhiteSpace t)"
    by simp
  from post have b: "dropWhile isWhiteSpace (rev post @ rev (dropWhile isWhiteSpace t)) =
      dropWhile isWhiteSpace (rev (dropWhile isWhiteSpace t))"
    by (intro dropWhile_append2) simp
  show ?thesis unfolding trim_def a b by simp
qed

lemma str_includes_sublist: "str_includes hay needle = sublist needle hay"
  by (induction hay) (auto simp: sublist_Cons_right)

section \<open>The double scan\<close>

lemma scanChildren_find:
  "scanChildren test cat cs =
     map_option (\<lambda>(cat, c). withCategory cat c) (find (\<lambda>(cat, c). test c) (map (Pair cat) cs))"
  by (induction cs) simp_all

lemma find_append:
  "find P (xs @ ys) = (case find P xs of Some x \<Rightarrow> Some x | None \<Rightarrow> find P ys)"
  by (induction xs) simp_all

lemma scanCategories_first: "scanCategories test cats = firstInScanOrder test cats"
proof (induction cats)
  case Nil
  show ?case by (simp add: firstInScanOrder_def scanOrder_def)
next
  case (Cons cat cats)
  show ?case
  proof (cases "children cat")
    case None
    with Cons show ?thesis
      by (simp add: firstInScanOrder_def scanOrder_def childrenOf_def)
  next
    case (Some cs)
    with Cons show ?thesis
      by (simp add: firstInScanOrder_def scanOrder_def childrenOf_def scanChildren_find
          find_append split: option.splits)
  qed
qed

lemma find_distinct_key:
  assumes "distinct (map f xs)" and "x \<in> set xs"
  shows "find (\<lambda>y. f y = f x) xs = Some x"
  using assms
proof (induction xs)
  case Nil
  then show ?case by simp
next
  case (Cons y ys)
  show ?case
  proof (cases "y = x")
    case True
    then show ?thesis by simp
  next
    case False
    with Cons.prems have "x \<in> set ys" and "f y \<noteq> f x" by auto
    with Cons show ?thesis by simp
  qed
qed

lemma scanOrder_member:
  "(cat, c) \<in> set (scanOrder cats) \<longleftrightarrow> cat \<in> set cats \<and> c \<in> set (childrenOf cat)"
  by (auto simp: scanOrder_def)

lemma present_truthy: "present v = truthy v"
  by (cases v) (auto simp: present_def)

section \<open>Resolution by name\<close>

lemma withCategory_fields:
  "component.truncate (withCategory cat c) = c"
  "category (withCategory cat c) = label cat"
  "categoryName (withCategory cat c) = name cat"
  by (simp_all add: withCategory_def component.extend_def component.truncate_def resolved.fields_def)

text \<open>
  C1. Exact match. Let \<open>C\<close> be a component stored under the category \<open>cat\<close> of a
  platform whose names are unique case-insensitively, the name of \<open>C\<close> having no white
  space around it. For every \<open>s\<close> that is a spelling of that name up to case, with white
  space before and after, \<open>findComponent\<close> returns the record that carries every field of
  \<open>C\<close>, its \<open>category\<close> the label and its \<open>categoryName\<close> the name of \<open>cat\<close>. This holds
  for every platform key, \<open>web\<close> and \<open>native\<close> among them.
\<close>

theorem findComponent_exact_match:
  assumes platform: "content P = Some cats"
    and stored: "cat \<in> set cats" "children cat = Some cs" "C \<in> set cs"
    and unique: "uniqueNames cats"
    and slug: "trim (name C) = name C"
    and padded: "s = pre @ t @ post"
      "\<forall>ch \<in> set pre. isWhiteSpace ch" "\<forall>ch \<in> set post. isWhiteSpace ch"
    and same: "toLowerCase t = toLowerCase (name C)"
  shows "findComponent content P (JStr s) = Inr (Some (withCategory cat C)) \<and>
         component.truncate (withCategory cat C) = C \<and>
         category (withCategory cat C) = label cat \<and>
         categoryName (withCategory cat C) = name cat"
proof -
  let ?key = "\<lambda>(cat, c). toLowerCase (name c)"
  have "trim (toLowerCase s) = toLowerCase (trim t)"
    using padded by (simp add: trim_toLowerCase trim_padding)
  also have "\<dots> = trim (toLowerCase (name C))"
    using same by (simp add: trim_toLowerCase [symmetric])
  also have "\<dots> = toLowerCase (name C)"
    using slug by (simp add: trim_toLowerCase)
  finally have q: "trim (toLowerCase s) = toLowerCase (name C)" .
  from stored have mem: "(cat, C) \<in> set (scanOrder cats)"
    by (simp add: scanOrder_member childrenOf_def)
  from unique have "distinct (map ?key (scanOrder cats))"
    by (simp add: uniqueNames_def)
  from find_distinct_key [OF this mem]
  have "find (\<lambda>(cat, c). exactTest (toLowerCase (name C)) c) (scanOrder cats) = Some (cat, C)"
    by (simp add: exactTest_def case_prod_unfold)
  then have "scanCategories (exactTest (toLowerCase (name C))) cats = Some (withCategory cat C)"
    by (simp add: scanCategories_first firstInScanOrder_def)
  with platform q have "findComponent content P (JStr s) = Inr (Some (withCategory cat C))"
    by (simp add: findComponent_def)
  then show ?thesis by (simp add: withCategory_fields)
qed

theorem findComponent_exact_match_witness:
  "findComponent exampleContent ''web'' (JStr ''  CheckBox '') = Inr (Some (withCategory controls checkbox))
   \<and> component.truncate (withCategory controls checkbox) = checkbox
   \<and> category (withCategory controls checkbox) = ''Controls''
   \<and> categoryName (withCategory controls checkbox) = ''controls''"
proof -
  have 1: "exampleContent ''web'' = Some [controls, drafts, overlays]"
    by (simp add: exampleContent_def)
  have 2: "controls \<in> set [controls, drafts, overlays]" by simp
  have 3: "children controls = Some [button, checkbox]" by (simp add: controls_def)
  have 4: "checkbox \<in> set [button, checkbox]" by simp
  have 5: "uniqueNames [controls, drafts, overlays]" by code_simp
  have 6: "trim (name checkbox) = name checkbox" by code_simp
  have 7: "''  CheckBox '' = ''  '' @ ''CheckBox'' @ '' ''" by simp
  have 8: "\<forall>ch \<in> set ''  ''. isWhiteSpace ch" by code_simp
  have 9: "\<forall>ch \<in> set '' ''. isWhiteSpace ch" by code_simp
  have 10: "toLowerCase ''CheckBox'' = toLowerCase (name checkbox)" by code_simp
  from findComponent_exact_match [of exampleContent "''web''" "[controls, drafts, overlays]"
      controls "[button, checkbox]" checkbox "''  CheckBox ''" "''  ''" "''CheckBox''" "'' ''",
      OF 1 2 3 4 5 6 7 8 9 10]
  show ?thesis
    by (auto simp: withCategory_fields controls_def) 
qed

text \<open>
  C3 states that \<open>findComponent\<close> answers "not found" for the empty name. On the example
  collection it does not: the exact pass finds no component with the empty name, and
  the partial-match pass accepts the first component of the scan, because every name
  includes the empty string. \<open>searchComponents\<close> returns early on an empty query;
  \<open>findComponent\<close> has no such test.
\<close>

theorem findComponent_empty_name_resolves:
  "findComponent exampleContent ''web'' (JStr '''') = Inr (Some (withCategory controls button))"
  by code_simp

text \<open>The empty name resolves whenever the platform has a component at all, and a name
  that matches nothing in either pass is not found.\<close>

lemma findComponent_empty_name:
  assumes "content P = Some cats" and "scanOrder cats \<noteq> []"
  shows "\<exists>r. findComponent content P (JStr []) = Inr (Some r)"
proof -
  from assms(2) obtain cat c rest where "scanOrder cats = (cat, c) # rest"
    by (cases "scanOrder cats") auto
  then have "scanCategories (partialTest []) cats \<noteq> None"
    by (simp add: scanCategories_first firstInScanOrder_def partialTest_def str_includes_sublist)
  with assms(1) show ?thesis
    by (auto simp: findComponent_def toLowerCase_def trim_def split: option.splits)
qed

lemma findComponent_no_match:
  assumes "content P = Some cats"
    and "\<forall>(cat, c) \<in> set (scanOrder cats).
           toLowerCase (name c) \<noteq> trim (toLowerCase s) \<and>
           \<not> sublist (trim (toLowerCase s)) (toLowerCase (name c)) \<and>
           \<not> sublist (trim (toLowerCase s)) (toLowerCase (label c))"
  shows "findComponent content P (JStr s) = Inr None"
proof -
  from assms(2) have "find (\<lambda>(cat, c). exactTest (trim (toLowerCase s)) c) (scanOrder cats) = None"
    and "find (\<lambda>(cat, c). partialTest (trim (toLowerCase s)) c) (scanOrder cats) = None"
    by (auto simp: find_None_iff exactTest_def partialTest_def str_includes_sublist)
  then have "scanCategories (exactTest (trim (toLowerCase s))) cats = None"
    and "scanCategories (partialTest (trim (toLowerCase s))) cats = None"
    by (simp_all add: scanCategories_first firstInScanOrder_def)
  with assms(1) show ?thesis by (simp add: findComponent_def)
qed

text \<open>
  C5. Fuzzy fallback. When no component of the platform has the normalized query as
  its lower-cased name, \<open>findComponent\<close> looks for the first component in scan order
  (categories in stored order, children in stored order) whose lower-cased name or
  lower-cased label has the normalized query as a contiguous substring. When there is
  none the answer is "not found". When it is \<open>c\<close> under the category \<open>cat\<close>, the answer is
  a record that carries every field of \<open>c\<close>, its \<open>category\<close> the label and its
  \<open>categoryName\<close> the name of \<open>cat\<close>.
\<close>

theorem findComponent_fuzzy_fallback:
  assumes "content P = Some cats"
    and "\<forall>(cat, c) \<in> set (scanOrder cats). toLowerCase (name c) \<noteq> trim (toLowerCase s)"
  shows "(find (\<lambda>(cat, c). sublist (trim (toLowerCase s)) (toLowerCase (name c)) \<or>
                        sublist (trim (toLowerCase s)) (toLowerCase (label c)))
            (scanOrder cats) = None \<longrightarrow>
          findComponent content P (JStr s) = Inr None) \<and>
         (\<forall>cat c.
            find (\<lambda>(cat, c). sublist (trim (toLowerCase s)) (toLowerCase (name c)) \<or>
                          sublist (trim (toLowerCase s)) (toLowerCase (label c)))
              (scanOrder cats) = Some (cat, c) \<longrightarrow>
            (\<exists>r. findComponent content P (JStr s) = Inr (Some r) \<and>
                 component.truncate r = c \<and> category r = label cat \<and>
                 categoryName r = name cat))"
proof -
  let ?q = "trim (toLowerCase s)"
  let ?test = "\<lambda>c. sublist ?q (toLowerCase (name c)) \<or> sublist ?q (toLowerCase (label c))"
  from assms(2) have "find (\<lambda>(cat, c). exactTest ?q c) (scanOrder cats) = None"
    by (auto simp: find_None_iff exactTest_def)
  then have exact: "scanCategories (exactTest ?q) cats = None"
    by (simp add: scanCategories_first firstInScanOrder_def)
  have "partialTest ?q = ?test"
    by (rule ext) (simp add: partialTest_def str_includes_sublist)
  then have partial: "scanCategories (partialTest ?q) cats =
      map_option (\<lambda>(cat, c). component.extend c (resolved.fields (label cat) (name cat)))
        (find (\<lambda>(cat, c). ?test c) (scanOrder cats))"
    by (simp add: scanCategories_first firstInScanOrder_def withCategory_def)
  from assms(1) exact have "findComponent content P (JStr s) =
      Inr (scanCategories (partialTest ?q) cats)"
    by (simp add: findComponent_def Let_def)
  with partial show ?thesis
    by (auto simp: component.extend_def component.truncate_def resolved.fields_def)
qed

theorem findComponent_fuzzy_fallback_witness:
  "find (\<lambda>(cat, c). sublist (trim (toLowerCase ''Box'')) (toLowerCase (name c)) \<or>
                  sublist (trim (toLowerCase ''Box'')) (toLowerCase (label c)))
     (scanOrder [controls, drafts, overlays]) = Some (controls, checkbox) \<and>
   findComponent exampleContent ''web'' (JStr ''Box'') =
     Inr (Some
       \<lparr>name = ''checkbox'', label = ''Checkbox'', generalNotes = JUndefined,
        gherkin = JStr ''Given a checkbox with focus'', condensed = JStr [],
        developerNotes = JUndefined, androidDeveloperNotes = JUndefined,
        iosDeveloperNotes = JUndefined, videos = JStr ''checkbox.mp4'',
        category = ''Controls'', categoryName = ''controls''\<rparr>) \<and>
   (\<exists>r. findComponent exampleContent ''web'' (JStr ''Box'') = Inr (Some r) \<and>
        component.truncate r =
          \<lparr>name = ''checkbox'', label = ''Checkbox'', generalNotes = JUndefined,
           gherkin = JStr ''Given a checkbox with focus'', condensed = JStr [],
           developerNotes = JUndefined, androidDeveloperNotes = JUndefined,
           iosDeveloperNotes = JUndefined, videos = JStr ''checkbox.mp4''\<rparr> \<and>
        category r = ''Controls'' \<and> categoryName r = ''controls'')"
proof -
  have 1: "exampleContent ''web'' = Some [controls, drafts, overlays]"
    by (simp add: exampleContent_def)
  have 2: "\<forall>(cat, c) \<in> set (scanOrder [controls, drafts, overlays]).
      toLowerCase (name c) \<noteq> trim (toLowerCase ''Box'')"
    by code_simp
  have 3: "find (\<lambda>(cat, c). sublist (trim (toLowerCase ''Box'')) (toLowerCase (name c)) \<or>
                  sublist (trim (toLowerCase ''Box'')) (toLowerCase (label c)))
     (scanOrder [controls, drafts, overlays]) = Some (controls, checkbox)"
    unfolding str_includes_sublist [symmetric] by code_simp
  have 4: "checkbox =
      \<lparr>name = ''checkbox'', label = ''Checkbox'', generalNotes = JUndefined,
       gherkin = JStr ''Given a checkbox with focus'', condensed = JStr [],
       developerNotes = JUndefined, androidDeveloperNotes = JUndefined,
       iosDeveloperNotes = JUndefined, videos = JStr ''checkbox.mp4''\<rparr>"
    by (simp add: checkbox_def plain_def)
  have 5: "label controls = ''Controls''" "name controls = ''controls''"
    by (simp_all add: controls_def)
  have 6: "findComponent exampleContent ''web'' (JStr ''Box'') =
     Inr (Some
       \<lparr>name = ''checkbox'', label = ''Checkbox'', generalNotes = JUndefined,
        gherkin = JStr ''Given a checkbox with focus'', condensed = JStr [],
        developerNotes = JUndefined, androidDeveloperNotes = JUndefined,
        iosDeveloperNotes = JUndefined, videos = JStr ''checkbox.mp4'',
        category = ''Controls'', categoryName = ''controls''\<rparr>)"
    by code_simp
  from findComponent_fuzzy_fallback [of exampleContent "''web''" "[controls, drafts, overlays]" "''Box''",
      OF 1 2] 3 4 5 6
  show ?thesis by auto
qed

section \<open>Format report\<close>

text \<open>
  C7. \<open>listComponentFormats\<close> answers "not found" exactly when \<open>findComponent\<close> does, and
  otherwise reports, for each of \<open>gherkin\<close>, \<open>condensed\<close>, \<open>developerNotes\<close>,
  \<open>androidDeveloperNotes\<close>, \<open>iosDeveloperNotes\<close>, \<open>videos\<close> and \<open>generalNotes\<close>, whether the
  section is present on the resolved component: the key exists and its value is not
  falsy (for a string: not empty).
\<close>

theorem listComponentFormats_report:
  "(listComponentFormats content P n = Inr None \<longleftrightarrow> findComponent content P n = Inr None) \<and>
   (\<forall>r. findComponent content P n = Inr (Some r) \<longrightarrow>
      (\<exists>report. listComponentFormats content P n = Inr (Some report) \<and>
         fmt_gherkin (formats report) = present (gherkin r) \<and>
         fmt_condensed (formats report) = present (condensed r) \<and>
         fmt_developerNotes (formats report) = present (developerNotes r) \<and>
         fmt_androidDeveloperNotes (formats report) = present (androidDeveloperNotes r) \<and>
         fmt_iosDeveloperNotes (formats report) = present (iosDeveloperNotes r) \<and>
         fmt_videos (formats report) = present (videos r) \<and>
         fmt_generalNotes (formats report) = present (generalNotes r)))"
  by (auto simp: listComponentFormats_def present_truthy split: sum.splits option.splits)

theorem listComponentFormats_report_witness:
  "listComponentFormats exampleContent ''web'' (JStr ''nothing'') = Inr None \<and>
   findComponent exampleContent ''web'' (JStr ''nothing'') = Inr None \<and>
   findComponent exampleContent ''web'' (JStr ''checkbox'') = Inr (Some (withCategory controls checkbox)) \<and>
   (\<exists>report. listComponentFormats exampleContent ''web'' (JStr ''checkbox'') = Inr (Some report) \<and>
      fmt_gherkin (formats report) \<and> \<not> fmt_condensed (formats report) \<and>
      \<not> fmt_developerNotes (formats report) \<and> \<not> fmt_androidDeveloperNotes (formats report) \<and>
      \<not> fmt_iosDeveloperNotes (formats report) \<and> fmt_videos (formats report) \<and>
      \<not> fmt_generalNotes (formats report))"
proof -
  have 1: "findComponent exampleContent ''web'' (JStr ''nothing'') = Inr None" by code_simp
  have 2: "findComponent exampleContent ''web'' (JStr ''checkbox'') = Inr (Some (withCategory controls checkbox))"
    by code_simp
  have 3: "present (gherkin (withCategory controls checkbox))"
    "\<not> present (condensed (withCategory controls checkbox))"
    "\<not> present (developerNotes (withCategory controls checkbox))"
    "\<not> present (androidDeveloperNotes (withCategory controls checkbox))"
    "\<not> present (iosDeveloperNotes (withCategory controls checkbox))"
    "present (videos (withCategory controls checkbox))"
    "\<not> present (generalNotes (withCategory controls checkbox))"
    by (simp_all add: present_def withCategory_def component.extend_def checkbox_def plain_def)
  from listComponentFormats_report [of exampleContent "''web''" "JStr ''nothing''"] 
    listComponentFormats_report [of exampleContent "''web''" "JStr ''checkbox''"] 1 2 3
  show ?thesis by auto
qed

section \<open>Categories without children\<close>

lemma scanOrder_skip:
  "children cat = None \<Longrightarrow> scanOrder (before @ cat # after) = scanOrder (before @ after)"
  by (simp add: scanOrder_def childrenOf_def)

lemma scanCategories_skip:
  "children cat = None \<Longrightarrow>
   scanCategories test (before @ cat # after) = scanCategories test (before @ after)"
  by (simp add: scanCategories_first firstInScanOrder_def scanOrder_skip)

lemma searchCategories_skip:
  "children cat = None \<Longrightarrow>
   searchCategories q (before @ cat # after) = searchCategories q (before @ after)"
  by (induction before) (simp_all split: option.splits sum.splits)

lemma listFrom_skip:
  assumes "children cat = None" and "\<not> truthy f \<or> (\<exists>s. f = JStr s)"
  shows "listFrom f (before @ cat # after) = listFrom f (before @ after)"
  using assms by (induction before) (auto simp: childrenOf_def split: sum.splits)

lemma listFrom_returns:
  assumes "\<not> truthy f \<or> (\<exists>s. f = JStr s)"
  shows "\<exists>xs. listFrom f cats = Inr xs"
  using assms by (induction cats) (auto split: sum.splits)

text \<open>
  C10. A category whose \<open>children\<close> field is absent is skipped: \<open>listComponents\<close> (with
  no filter or a string filter), \<open>findComponent\<close> and \<open>searchComponents\<close> return what they
  return on the collection without that category, the first two without an error on
  string arguments, and \<open>listCategories\<close> reports it with \<open>componentCount\<close> 0.
\<close>

theorem childless_category_skipped:
  assumes "content P = Some (before @ cat # after)" and "children cat = None"
    and "\<not> truthy categoryArg \<or> (\<exists>s. categoryArg = JStr s)"
  shows "listComponents content P categoryArg =
           listComponents (content(P \<mapsto> before @ after)) P categoryArg \<and>
         (\<exists>xs. listComponents content P categoryArg = Inr xs) \<and>
         findComponent content P componentName =
           findComponent (content(P \<mapsto> before @ after)) P componentName \<and>
         (\<exists>r. findComponent content P (JStr s) = Inr r) \<and>
         searchComponents content localeCompare P query maxResults =
           searchComponents (content(P \<mapsto> before @ after)) localeCompare P query maxResults \<and>
         (\<exists>infos. listCategories content P = Inr infos \<and>
            infos ! length before =
              \<lparr>ci_name = name cat, ci_label = label cat, componentCount = 0\<rparr>)"
proof -
  let ?f = "if categoryArg = JUndefined then JNull else categoryArg"
  from assms(3) have f: "\<not> truthy ?f \<or> (\<exists>s. ?f = JStr s)" by auto
  have "listComponents content P categoryArg =
      listComponents (content(P \<mapsto> before @ after)) P categoryArg"
    using assms(1) listFrom_skip [OF assms(2) f] by (simp add: listComponents_def)
  moreover have "\<exists>xs. listComponents content P categoryArg = Inr xs"
    using assms(1) listFrom_returns [OF f] by (simp add: listComponents_def)
  moreover have "findComponent content P componentName =
      findComponent (content(P \<mapsto> before @ after)) P componentName"
    using assms(1,2)
    by (simp add: findComponent_def scanCategories_skip Let_def split: sum.splits option.splits)
  moreover have "\<exists>r. findComponent content P (JStr s) = Inr r"
    using assms(1) by (simp add: findComponent_def Let_def split: option.splits)
  moreover have "searchComponents content localeCompare P query maxResults =
      searchComponents (content(P \<mapsto> before @ after)) localeCompare P query maxResults"
    using assms(1,2) by (simp add: searchComponents_def searchCategories_skip split: sum.splits)
  moreover have "\<exists>infos. listCategories content P = Inr infos \<and>
      infos ! length before =
        \<lparr>ci_name = name cat, ci_label = label cat, componentCount = 0\<rparr>"
    using assms(1,2) by (simp add: listCategories_def nth_append)
  ultimately show ?thesis by blast
qed

theorem childless_category_skipped_witness:
  "listComponents exampleContent ''web'' JUndefined =
     listComponents (exampleContent(''web'' \<mapsto> [controls] @ [overlays])) ''web'' JUndefined \<and>
   listComponents exampleContent ''web'' JUndefined =
     Inr [summarize controls button, summarize controls checkbox, summarize overlays tooltip] \<and>
   findComponent exampleContent ''web'' (JStr ''tooltip'') =
     findComponent (exampleContent(''web'' \<mapsto> [controls] @ [overlays])) ''web'' (JStr ''tooltip'') \<and>
   findComponent exampleContent ''web'' (JStr ''tooltip'') = Inr (Some (withCategory overlays tooltip)) \<and>
   searchComponents exampleContent codeUnitCompare ''web'' (JStr ''tooltip'') JUndefined =
     searchComponents (exampleContent(''web'' \<mapsto> [controls] @ [overlays])) codeUnitCompare ''web''
       (JStr ''tooltip'') JUndefined \<and>
   listCategories exampleContent ''web'' =
     Inr [\<lparr>ci_name = ''controls'', ci_label = ''Controls'', componentCount = 2\<rparr>,
          \<lparr>ci_name = ''drafts'', ci_label = ''Drafts'', componentCount = 0\<rparr>,
          \<lparr>ci_name = ''overlays'', ci_label = ''Overlays'', componentCount = 1\<rparr>]"
proof -
  have 1: "exampleContent ''web'' = Some ([controls] @ drafts # [overlays])"
    by (simp add: exampleContent_def)
  have 2: "children drafts = None" by (simp add: drafts_def)
  have 3: "\<not> truthy JUndefined \<or> (\<exists>s. JUndefined = JStr s)" by simp
  have 4: "listComponents exampleContent ''web'' JUndefined =
     Inr [summarize controls button, summarize controls checkbox, summarize overlays tooltip]"
    by code_simp
  have 5: "findComponent exampleContent ''web'' (JStr ''tooltip'') = Inr (Some (withCategory overlays tooltip))"
    by code_simp
  have 6: "listCategories exampleContent ''web'' =
     Inr [\<lparr>ci_name = ''controls'', ci_label = ''Controls'', componentCount = 2\<rparr>,
          \<lparr>ci_name = ''drafts'', ci_label = ''Drafts'', componentCount = 0\<rparr>,
          \<lparr>ci_name = ''overlays'', ci_label = ''Overlays'', componentCount = 1\<rparr>]"
    by code_simp
  from childless_category_skipped [of exampleContent "''web''" "[controls]" drafts "[overlays]"
      JUndefined "JStr ''tooltip''" "''tooltip''" codeUnitCompare "JStr ''tooltip''" JUndefined, OF 1 2 3] 4 5 6
  show ?thesis by (simp add: drafts_def)
qed

section \<open>Search: order and cap\<close>

lemma set_insertBy: "set (insertBy cmp x ys) = insert x (set ys)"
  by (induction ys) auto

lemma length_insertBy: "length (insertBy cmp x ys) = Suc (length ys)"
  by (induction ys) auto

lemma set_sortBy: "set (sortBy cmp xs) = set xs"
  by (induction xs) (simp_all add: sortBy_def set_insertBy)

lemma length_sortBy: "length (sortBy cmp xs) = length xs"
  by (induction xs) (simp_all add: sortBy_def length_insertBy)

lemma sorted_insertBy:
  assumes total: "\<And>a b. cmp a b \<le> 0 \<or> cmp b a \<le> 0"
    and trans: "\<And>a b c. cmp a b \<le> 0 \<Longrightarrow> cmp b c \<le> 0 \<Longrightarrow> cmp a c \<le> 0"
    and sorted: "sorted_wrt (\<lambda>a b. cmp a b \<le> 0) ys"
  shows "sorted_wrt (\<lambda>a b. cmp a b \<le> 0) (insertBy cmp x ys)"
  using sorted
proof (induction ys)
  case Nil
  show ?case by simp
next
  case (Cons y ys)
  show ?case
  proof (cases "cmp x y \<le> 0")
    case True
    with Cons.prems trans have "\<forall>z \<in> set ys. cmp x z \<le> 0" by auto
    with True Cons.prems show ?thesis by simp
  next
    case False
    with total have "cmp y x \<le> 0" by blast
    with False Cons show ?thesis by (simp add: set_insertBy)
  qed
qed

lemma sorted_sortBy:
  assumes "\<And>a b. cmp a b \<le> 0 \<or> cmp b a \<le> 0"
    and "\<And>a b c. cmp a b \<le> 0 \<Longrightarrow> cmp b c \<le> 0 \<Longrightarrow> cmp a c \<le> 0"
  shows "sorted_wrt (\<lambda>a b. cmp a b \<le> 0) (sortBy cmp xs)"
proof (induction xs)
  case Nil
  show ?case by (simp add: sortBy_def)
next
  case (Cons x xs)
  from sorted_insertBy [where cmp = cmp and x = x, OF assms Cons.IH]
  show ?case by (simp add: sortBy_def)
qed

lemma compareResults_le:
  "compareResults lc a b \<le> 0 \<longleftrightarrow>
     score b < score a \<or> (score a = score b \<and> lc (sr_name a) (sr_name b) \<le> 0)"
  by (auto simp: compareResults_def)

lemma sorted_results:
  assumes total: "\<And>a b. lc a b \<le> 0 \<or> lc b a \<le> 0"
    and trans: "\<And>a b c. lc a b \<le> 0 \<Longrightarrow> lc b c \<le> 0 \<Longrightarrow> lc a c \<le> 0"
  shows "sorted_wrt (\<lambda>a b. score b < score a \<or> (score a = score b \<and> lc (sr_name a) (sr_name b) \<le> 0))
           (sortBy (compareResults lc) xs)"
proof -
  have 1: "compareResults lc a b \<le> 0 \<or> compareResults lc b a \<le> 0" for a b
    using total [of "sr_name a" "sr_name b"] by (auto simp: compareResults_le)
  have 2: "compareResults lc a c \<le> 0"
    if "compareResults lc a b \<le> 0" "compareResults lc b c \<le> 0" for a b c
    using that trans [of "sr_name a" "sr_name b" "sr_name c"] by (auto simp: compareResults_le)
  from sorted_sortBy [where cmp = "compareResults lc" and xs = xs, OF 1 2] show ?thesis
    by (simp add: compareResults_le)
qed

lemma searchChildren_positive:
  "searchChildren q cat cs = Inr rs \<Longrightarrow> \<forall>r \<in> set rs. 0 < score r"
proof (induction cs arbitrary: rs)
  case Nil
  then show ?case by simp
next
  case (Cons c cs)
  then show ?case
    by (auto split: sum.splits prod.splits if_splits)
qed

lemma searchCategories_positive:
  "searchCategories q cats = Inr rs \<Longrightarrow> \<forall>r \<in> set rs. 0 < score r"
proof (induction cats arbitrary: rs)
  case Nil
  then show ?case by simp
next
  case (Cons cat cats)
  show ?case
  proof (cases "children cat")
    case None
    with Cons show ?thesis by simp
  next
    case (Some cs)
    with Cons.prems obtain found rest where
      found: "searchChildren q cat cs = Inr found"
      and rest: "searchCategories q cats = Inr rest" and rs: "rs = found @ rest"
      by (auto split: sum.splits)
    from searchChildren_positive [OF found] Cons.IH [OF rest] rs show ?thesis by auto
  qed
qed

lemma sorted_wrt_prefix: "prefix xs ys \<Longrightarrow> sorted_wrt R ys \<Longrightarrow> sorted_wrt R xs"
  by (auto simp: prefix_def sorted_wrt_append)

lemma codeUnitCompare_total: "codeUnitCompare a b \<le> 0 \<or> codeUnitCompare b a \<le> 0"
  by (auto simp: codeUnitCompare_def)

lemma codeUnitCompare_trans:
  "codeUnitCompare a b \<le> 0 \<Longrightarrow> codeUnitCompare b c \<le> 0 \<Longrightarrow> codeUnitCompare a c \<le> 0"
  by (auto simp: codeUnitCompare_def split: if_splits)

lemma mset_insertBy: "mset (insertBy cmp x ys) = add_mset x (mset ys)"
  by (induction ys) auto

lemma mset_sortBy: "mset (sortBy cmp xs) = mset xs"
  by (induction xs) (simp_all add: sortBy_def mset_insertBy)

lemma searchChildren_hits:
  "searchChildren q cat cs = Inr rs \<Longrightarrow>
   rs = map (\<lambda>c. hit cat c (fst (scoreOf q c)) (snd (scoreOf q c)))
          (filter (\<lambda>c. 0 < fst (scoreOf q c)) cs)"
proof (induction cs arbitrary: rs)
  case Nil
  then show ?case by simp
next
  case (Cons c cs)
  from Cons.prems obtain sc ms rest where
    sc: "scoreFields q c searchFields (0, []) = Inr (sc, ms)"
    and rest: "searchChildren q cat cs = Inr rest"
    and rs: "rs = (if 0 < sc then hit cat c sc ms # rest else rest)"
    by (auto simp: hit_def split: sum.splits prod.splits)
  from sc have "scoreOf q c = (sc, ms)" by (simp add: scoreOf_def)
  with Cons.IH [OF rest] rs show ?case by simp
qed

lemma searchCategories_hits:
  "searchCategories q cats = Inr rs \<Longrightarrow>
   rs = map (\<lambda>(cat, c). hit cat c (fst (scoreOf q c)) (snd (scoreOf q c)))
          (filter (\<lambda>(cat, c). 0 < fst (scoreOf q c)) (scanOrder cats))"
proof (induction cats arbitrary: rs)
  case Nil
  then show ?case by (simp add: scanOrder_def)
next
  case (Cons cat cats)
  show ?case
  proof (cases "children cat")
    case None
    with Cons show ?thesis by (simp add: scanOrder_def childrenOf_def)
  next
    case (Some cs)
    with Cons.prems obtain found rest where
      found: "searchChildren q cat cs = Inr found"
      and rest: "searchCategories q cats = Inr rest" and rs: "rs = found @ rest"
      by (auto split: sum.splits)
    from searchChildren_hits [OF found] Cons.IH [OF rest] rs Some show ?thesis
      by (simp add: scanOrder_def childrenOf_def filter_map comp_def)
  qed
qed

text \<open>
  C4. Order and cap. Whenever \<open>searchComponents\<close> returns a sequence (the comparator
  \<open>localeCompare\<close> being a total preorder, as a collation is): every entry has a score
  above 0; the entries are in descending order of score, entries of equal score in
  ascending order of name under \<open>localeCompare\<close>; with \<open>maxResults\<close> unspecified the call
  is the call with 10 and returns at most 10 entries; with a count \<open>n \<ge> 0\<close> it returns at
  most \<open>n\<close>. No upper bound is enforced: the returned sequence is a prefix of a
  sequence \<open>matches\<close> that holds all matches of the search, each as often as the scan
  finds it, and every count at or above the number of matches returns \<open>matches\<close> whole.
\<close>

theorem searchComponents_order_and_cap:
  assumes total: "\<And>a b. localeCompare a b \<le> 0 \<or> localeCompare b a \<le> 0"
    and trans: "\<And>a b c. localeCompare a b \<le> 0 \<Longrightarrow> localeCompare b c \<le> 0 \<Longrightarrow> localeCompare a c \<le> 0"
    and returns: "searchComponents content localeCompare P query maxResults = Inr rs"
  shows "(\<forall>r \<in> set rs. 0 < score r) \<and>
         sorted_wrt (\<lambda>a b. score b < score a \<or>
                          (score a = score b \<and> localeCompare (sr_name a) (sr_name b) \<le> 0)) rs \<and>
         (maxResults = JUndefined \<longrightarrow> length rs \<le> 10) \<and>
         (\<forall>n. maxResults = JNum n \<and> 0 \<le> n \<longrightarrow> length rs \<le> nat n) \<and>
         searchComponents content localeCompare P query JUndefined =
           searchComponents content localeCompare P query (JNum 10) \<and>
         (\<exists>matches. prefix rs matches \<and>
            mset matches = mset (allHits content P query) \<and>
            (\<forall>n. int (length (allHits content P query)) \<le> n \<longrightarrow>
               searchComponents content localeCompare P query (JNum n) = Inr matches))"
proof (cases "content P")
  case None
  with returns have empty: "searchComponents content localeCompare P query m = Inr []" for m
    by (auto simp: searchComponents_def split: if_splits sum.splits)
  from None have "allHits content P query = []" by (simp add: allHits_def)
  with empty returns show ?thesis by auto
next
  case (Some cats)
  show ?thesis
  proof (cases "truthy query")
    case False
    with Some have empty: "searchComponents content localeCompare P query m = Inr []" for m
      by (simp add: searchComponents_def)
    from False have "allHits content P query = []"
      by (cases query) (simp_all add: allHits_def split: option.splits)
    with empty returns show ?thesis by auto
  next
    case True
    have unspecified: "searchComponents content localeCompare P query JUndefined =
        searchComponents content localeCompare P query (JNum 10)"
      by (simp add: searchComponents_def)
    let ?limit = "if maxResults = JUndefined then JNum 10 else maxResults"
    from returns Some True obtain lowered results e where
      lowered: "callToLowerCase ''query'' query = Inr lowered"
      and results: "searchCategories (trim lowered) cats = Inr results"
      and e: "toIntegerOrInfinity ?limit = Inr e"
      and rs: "rs = sliceTo (sortBy (compareResults localeCompare) results) e"
      by (auto simp: searchComponents_def split: sum.splits)
    from lowered True obtain s where s: "query = JStr s" "s \<noteq> []" "lowered = toLowerCase s"
      by (cases query) auto
    from searchCategories_hits [OF results] Some s
    have hits: "results = allHits content P query"
      by (simp add: allHits_def)
    let ?sorted = "sortBy (compareResults localeCompare) results"
    have pre: "prefix rs ?sorted" by (simp add: rs sliceTo_def take_is_prefix)
    then have "set rs \<subseteq> set results"
      using set_mono_prefix [OF pre] by (simp add: set_sortBy)
    with searchCategories_positive [OF results] have positive: "\<forall>r \<in> set rs. 0 < score r" by blast
    have ordered: "sorted_wrt (\<lambda>a b. score b < score a \<or>
        (score a = score b \<and> localeCompare (sr_name a) (sr_name b) \<le> 0)) rs"
      using sorted_wrt_prefix [OF pre sorted_results [OF total trans]] .
    have default: "maxResults = JUndefined \<longrightarrow> length rs \<le> 10"
      using e rs by (auto simp: sliceTo_def)
    have cap: "\<forall>n. maxResults = JNum n \<and> 0 \<le> n \<longrightarrow> length rs \<le> nat n"
      using e rs by (auto simp: sliceTo_def)
    have whole: "searchComponents content localeCompare P query (JNum n) = Inr ?sorted"
      if "int (length (allHits content P query)) \<le> n" for n
      using that Some True lowered results hits
      by (simp add: searchComponents_def sliceTo_def length_sortBy)
    have "mset ?sorted = mset (allHits content P query)"
      by (simp add: mset_sortBy hits)
    with pre whole have "\<exists>matches. prefix rs matches \<and>
        mset matches = mset (allHits content P query) \<and>
        (\<forall>n. int (length (allHits content P query)) \<le> n \<longrightarrow>
           searchComponents content localeCompare P query (JNum n) = Inr matches)"
      by blast
    with positive ordered default cap unspecified show ?thesis by blast
  qed
qed

theorem searchComponents_order_and_cap_witness:
  "allHits exampleContent ''native'' (JStr ''UI'') =
     [hit nativeControls switch 2 [''iosDeveloperNotes''],
      hit nativeControls picker 2 [''iosDeveloperNotes'']] \<and>
   searchComponents exampleContent codeUnitCompare ''native'' (JStr ''UI'') JUndefined =
     Inr [hit nativeControls picker 2 [''iosDeveloperNotes''],
          hit nativeControls switch 2 [''iosDeveloperNotes'']] \<and>
   searchComponents exampleContent codeUnitCompare ''native'' (JStr ''UI'') (JNum 100) =
     Inr [hit nativeControls picker 2 [''iosDeveloperNotes''],
          hit nativeControls switch 2 [''iosDeveloperNotes'']] \<and>
   searchComponents exampleContent codeUnitCompare ''native'' (JStr ''UI'') (JNum 1) =
     Inr [hit nativeControls picker 2 [''iosDeveloperNotes'']] \<and>
   sr_name (hit nativeControls picker 2 [''iosDeveloperNotes'']) = ''picker'' \<and>
   sr_name (hit nativeControls switch 2 [''iosDeveloperNotes'']) = ''switch'' \<and>
   score (hit nativeControls picker 2 [''iosDeveloperNotes'']) = 2 \<and>
   score (hit nativeControls switch 2 [''iosDeveloperNotes'']) = 2 \<and>
   codeUnitCompare ''picker'' ''switch'' \<le> 0 \<and>
   length [hit nativeControls picker 2 [''iosDeveloperNotes''],
           hit nativeControls switch 2 [''iosDeveloperNotes'']] \<le> 10 \<and>
   length [hit nativeControls picker 2 [''iosDeveloperNotes'']] \<le> nat 1 \<and>
   allHits shelfContent ''web'' (JStr ''item'') =
     map (\<lambda>n. hit shelf (plain n n) 20 [''label'', ''name''])
       [''item12'', ''item11'', ''item10'', ''item09'', ''item08'', ''item07'',
        ''item06'', ''item05'', ''item04'', ''item03'', ''item02'', ''item01''] \<and>
   searchComponents shelfContent codeUnitCompare ''web'' (JStr ''item'') (JNum 100) =
     Inr (map (\<lambda>n. hit shelf (plain n n) 20 [''label'', ''name''])
       [''item01'', ''item02'', ''item03'', ''item04'', ''item05'', ''item06'',
        ''item07'', ''item08'', ''item09'', ''item10'', ''item11'', ''item12'']) \<and>
   searchComponents shelfContent codeUnitCompare ''web'' (JStr ''item'') (JNum 12) =
     searchComponents shelfContent codeUnitCompare ''web'' (JStr ''item'') (JNum 100) \<and>
   searchComponents shelfContent codeUnitCompare ''web'' (JStr ''item'') JUndefined =
     Inr (map (\<lambda>n. hit shelf (plain n n) 20 [''label'', ''name''])
       [''item01'', ''item02'', ''item03'', ''item04'', ''item05'', ''item06'',
        ''item07'', ''item08'', ''item09'', ''item10''])"
proof -
  let ?h = "\<lambda>n. hit shelf (plain n n) 20 [''label'', ''name'']"
  have shelfHits: "allHits shelfContent ''web'' (JStr ''item'') =
     map ?h [''item12'', ''item11'', ''item10'', ''item09'', ''item08'', ''item07'',
        ''item06'', ''item05'', ''item04'', ''item03'', ''item02'', ''item01'']"
    by code_simp
  have shelfAll: "searchComponents shelfContent codeUnitCompare ''web'' (JStr ''item'') (JNum 100) =
     Inr (map ?h [''item01'', ''item02'', ''item03'', ''item04'', ''item05'', ''item06'',
        ''item07'', ''item08'', ''item09'', ''item10'', ''item11'', ''item12''])"
    by code_simp
  have shelfTen: "searchComponents shelfContent codeUnitCompare ''web'' (JStr ''item'') JUndefined =
     Inr (map ?h [''item01'', ''item02'', ''item03'', ''item04'', ''item05'', ''item06'',
        ''item07'', ''item08'', ''item09'', ''item10''])"
    by code_simp
  have twelve: "length (allHits shelfContent ''web'' (JStr ''item'')) = 12"
    by (simp add: shelfHits)
  have "\<exists>matches.
      prefix (map ?h [''item01'', ''item02'', ''item03'', ''item04'', ''item05'', ''item06'',
        ''item07'', ''item08'', ''item09'', ''item10'', ''item11'', ''item12'']) matches \<and>
      mset matches = mset (allHits shelfContent ''web'' (JStr ''item'')) \<and>
      (\<forall>n. int (length (allHits shelfContent ''web'' (JStr ''item''))) \<le> n \<longrightarrow>
         searchComponents shelfContent codeUnitCompare ''web'' (JStr ''item'') (JNum n) =
           Inr matches)"
    by (rule searchComponents_order_and_cap [where localeCompare = codeUnitCompare,
          THEN conjunct2, THEN conjunct2, THEN conjunct2, THEN conjunct2, THEN conjunct2])
       (rule codeUnitCompare_total, erule (1) codeUnitCompare_trans, rule shelfAll)
  with twelve obtain whole where "\<forall>n. 12 \<le> n \<longrightarrow>
      searchComponents shelfContent codeUnitCompare ''web'' (JStr ''item'') (JNum n) = Inr whole"
    by auto
  then have shelfTwelve:
    "searchComponents shelfContent codeUnitCompare ''web'' (JStr ''item'') (JNum 12) =
     searchComponents shelfContent codeUnitCompare ''web'' (JStr ''item'') (JNum 100)"
    by simp
  let ?p = "hit nativeControls picker 2 [''iosDeveloperNotes'']"
  let ?s = "hit nativeControls switch 2 [''iosDeveloperNotes'']"
  have a: "searchComponents exampleContent codeUnitCompare ''native'' (JStr ''UI'') JUndefined =
      Inr [?p, ?s]"
    by code_simp
  have b: "searchComponents exampleContent codeUnitCompare ''native'' (JStr ''UI'') (JNum 1) =
      Inr [?p]"
    by code_simp
  have c: "allHits exampleContent ''native'' (JStr ''UI'') = [?s, ?p]"
    by code_simp
  have names: "sr_name ?p = ''picker''" "sr_name ?s = ''switch''" "score ?p = 2" "score ?s = 2"
    by (simp_all add: hit_def picker_def switch_def plain_def)
  have order: "codeUnitCompare ''picker'' ''switch'' \<le> 0" by code_simp
  have "\<exists>matches. prefix [?p, ?s] matches \<and> mset matches = mset [?s, ?p] \<and>
      (\<forall>n. int (length [?s, ?p]) \<le> n \<longrightarrow>
         searchComponents exampleContent codeUnitCompare ''native'' (JStr ''UI'') (JNum n) =
           Inr matches)"
    using searchComponents_order_and_cap [OF codeUnitCompare_total codeUnitCompare_trans a] c
    by simp
  then obtain matches where m: "prefix [?p, ?s] matches" "mset matches = mset [?s, ?p]"
    and all: "searchComponents exampleContent codeUnitCompare ''native'' (JStr ''UI'') (JNum 100) =
      Inr matches"
    by force
  from m(2) have "length matches = 2" using mset_eq_length [OF m(2)] by simp
  with m(1) have "matches = [?p, ?s]" by (auto simp: prefix_def)
  with all a b c names order shelfHits shelfAll shelfTen shelfTwelve
    searchComponents_order_and_cap [OF codeUnitCompare_total codeUnitCompare_trans b]
  show ?thesis by simp
qed

section \<open>Search: the score\<close>

text \<open>
  C2 states that a matching field adds its weight plus the number of non-overlapping
  occurrences of the query minus one. The code counts the matches of the query taken
  as a regular expression. For the query \<open>.\<close> on the example collection the dot matches
  every code unit of the matching field: \<open>button\<close> scores \<open>5 + 35\<close> and \<open>tooltip\<close> \<open>5 + 13\<close>,
  where the occurrences of the full stop give \<open>5 + 1\<close> and \<open>5 + 0\<close>. The matched fields are
  as stated.
\<close>

theorem search_score_dot_query:
  "searchComponents exampleContent codeUnitCompare ''web'' (JStr ''.'') JUndefined =
     Inr [hit controls button 40 [''generalNotes''], hit overlays tooltip 18 [''generalNotes'']] \<and>
   claimedScore ''.'' button = 6 \<and> claimedFields ''.'' button = [''generalNotes''] \<and>
   claimedScore ''.'' tooltip = 5 \<and> claimedFields ''.'' tooltip = [''generalNotes'']"
  by code_simp

text \<open>For a query without regular-expression syntax the two counts agree, and the
  search returns exactly the components with a positive score as the specification
  words it, each with that score and those matched fields.\<close>

lemma matchesAt_literal: "literalPattern p \<Longrightarrow> matchesAt p s = prefix p s"
  by (induction p s rule: matchesAt.induct) (auto simp: literalPattern_def atomMatches_def)

lemma countFrom_skip: "p \<noteq> [] \<Longrightarrow> countFrom p k s = countFrom p 0 (drop k s)"
proof (induction s arbitrary: k)
  case Nil
  then show ?case by simp
next
  case (Cons c cs)
  then show ?case by (cases k) simp_all
qed

lemma countFrom_literal:
  assumes "literalPattern p"
  shows "countFrom p 0 s = occurrenceCount p s"
proof (cases "p = []")
  case True
  have "countFrom [] 0 s = length s + 1" by (induction s) simp_all
  with True show ?thesis by (simp add: occurrenceCount.simps)
next
  case False
  with assms show ?thesis
  proof (induction p s rule: occurrenceCount.induct)
    case (1 needle hay)
    show ?case
    proof (cases hay)
      case Nil
      with "1.prems" show ?thesis
        by (subst occurrenceCount.simps) simp
    next
      case (Cons c cs)
      show ?thesis
      proof (cases "prefix needle hay")
        case True
        from "1.prems" obtain m where m: "length needle = Suc m"
          by (cases needle) auto
        from True "1.prems" Cons
        have "countFrom needle 0 hay = 1 + countFrom needle m cs"
          by (simp add: matchesAt_literal m)
        also have "countFrom needle m cs = countFrom needle 0 (drop (length needle) hay)"
          using "1.prems" Cons m countFrom_skip [of needle m cs] by simp
        also have "\<dots> = occurrenceCount needle (drop (length needle) hay)"
          using "1.IH"(1) "1.prems" True Cons by simp
        finally show ?thesis
          using True "1.prems" Cons by (subst occurrenceCount.simps) simp
      next
        case False
        from False "1.prems" Cons
        have "countFrom needle 0 hay = countFrom needle 0 (tl hay)"
          by (simp add: matchesAt_literal)
        also have "\<dots> = occurrenceCount needle (tl hay)"
          using "1.IH"(2) "1.prems" False Cons by simp
        finally show ?thesis
          using False "1.prems" Cons by (subst occurrenceCount.simps) simp
      qed
    qed
  qed
qed

lemma regexMatchCount_literal:
  "literalPattern p \<Longrightarrow> regexMatchCount p s = Inr (occurrenceCount p s)"
  by (auto simp: regexMatchCount_def countFrom_literal literalPattern_def)

lemma scoreFields_literal:
  assumes "literalPattern q"
  shows "scoreFields q c fws (sc, ms) =
     Inr (sc + sum_list (map (claimedFieldScore q c) fws),
          ms @ filter (fieldMatches q c) (map fst fws))"
proof (induction fws arbitrary: sc ms)
  case Nil
  show ?case by simp
next
  case (Cons fw fws)
  obtain field weight where fw: "fw = (field, weight)" by (cases fw)
  show ?case
    unfolding fw
    by (cases "fieldValue field c")
      (simp_all add: Cons.IH regexMatchCount_literal [OF assms] claimedFieldScore_def
        fieldMatches_def str_includes_sublist)
qed

lemma searchChildren_literal:
  assumes "literalPattern q"
  shows "searchChildren q cat cs =
     Inr (map (\<lambda>c. hit cat c (claimedScore q c) (claimedFields q c))
            (filter (\<lambda>c. 0 < claimedScore q c) cs))"
  by (induction cs)
    (simp_all add: scoreFields_literal [OF assms] claimedScore_def claimedFields_def hit_def)

lemma searchCategories_literal:
  assumes "literalPattern q"
  shows "searchCategories q cats =
     Inr (map (\<lambda>(cat, c). hit cat c (claimedScore q c) (claimedFields q c))
            (filter (\<lambda>(cat, c). 0 < claimedScore q c) (scanOrder cats)))"
proof (induction cats)
  case Nil
  show ?case by (simp add: scanOrder_def)
next
  case (Cons cat cats)
  show ?case
    by (cases "children cat")
      (simp_all add: Cons.IH searchChildren_literal [OF assms] scanOrder_def childrenOf_def
        filter_map comp_def)
qed

lemma searchComponents_literal:
  assumes "content P = Some cats" and "s \<noteq> []"
    and "literalPattern (trim (toLowerCase s))"
    and "toIntegerOrInfinity (if m = JUndefined then JNum 10 else m) = Inr e"
  shows "searchComponents content localeCompare P (JStr s) m =
     Inr (sliceTo
       (sortBy (compareResults localeCompare)
          (map (\<lambda>(cat, c). hit cat c (claimedScore (trim (toLowerCase s)) c)
                                      (claimedFields (trim (toLowerCase s)) c))
             (filter (\<lambda>(cat, c). 0 < claimedScore (trim (toLowerCase s)) c) (scanOrder cats))))
       e)"
  using assms by (simp add: searchComponents_def searchCategories_literal)

section \<open>The handlers\<close>




lemma truthy_keepIf: "truthy (keepIf b v) = (b \<and> truthy v)"
  by (simp add: keepIf_def)

lemma keepIf_True: "keepIf True v = v"
  by (simp add: keepIf_def)

lemma truthy_orNull: "truthy (if truthy v then v else JNull) = truthy v"
  by simp

text \<open>
  C9. For a component that resolves, the answer of \<open>get_web_component\<close> and of
  \<open>get_native_component\<close> is the text of the sections that do not depend on the flag,
  followed by the code-example sections (each developer-notes section that is present,
  under its heading), and the code-example sections are left out exactly when
  \<open>include_code_examples\<close> is the boolean \<open>false\<close>: any other value, or none, keeps them.
\<close>

theorem include_code_examples_flag:
  "(findComponent content ''web'' (arg args ''component'') = Inr (Some w) \<longrightarrow>
      get_web_component content args =
        Inr [TextContent
          (webSections w @
           (if arg args ''include_code_examples'' = JBool False then [] else webCodeExamples w))]) \<and>
   (findComponent content ''native'' (arg args ''component'') = Inr (Some n) \<longrightarrow>
      get_native_component content args =
        Inr [TextContent
          (nativeSections n @
           (if arg args ''include_code_examples'' = JBool False then []
            else nativeCodeExamples n))])"
proof -
  have titled_section:
    "titled heading v gap = (if truthy v then section_js heading v gap else [])"
    for heading v gap
    by (cases v) (simp_all add: titled_def section_js_def nl_def present_def)
  have web: "get_web_component content args =
     Inr [TextContent
       (webSections w @
        (if arg args ''include_code_examples'' = JBool False then [] else webCodeExamples w))]"
    if found: "findComponent content ''web'' (arg args ''component'') = Inr (Some w)"
  proof (cases "arg args ''include_code_examples'' = JBool False")
    case True
    with found show ?thesis
      by (simp add: get_web_component_def catchError_def formatComponentOutput_def
          textResponse_def nl_def backtick_def
          webSections_def commonSections_def titled_section truthy_keepIf keepIf_True
          truthy_orNull
          split del: if_split cong: if_cong)
  next
    case False
    with found show ?thesis
      by (simp add: get_web_component_def catchError_def formatComponentOutput_def
          textResponse_def nl_def backtick_def
          webSections_def commonSections_def webCodeExamples_def titled_section
          truthy_keepIf keepIf_True truthy_orNull
          split del: if_split cong: if_cong)
  qed
  have native: "get_native_component content args =
     Inr [TextContent
       (nativeSections n @
        (if arg args ''include_code_examples'' = JBool False then []
         else nativeCodeExamples n))]"
    if found: "findComponent content ''native'' (arg args ''component'') = Inr (Some n)"
  proof (cases "arg args ''include_code_examples'' = JBool False")
    case True
    with found show ?thesis
      by (simp add: get_native_component_def catchError_def textResponse_def nl_def
          backtick_def nativeSections_def commonSections_def titled_section
          split del: if_split cong: if_cong)
  next
    case False
    with found show ?thesis
      by (simp add: get_native_component_def catchError_def textResponse_def nl_def
          backtick_def nativeSections_def commonSections_def nativeCodeExamples_def
          titled_section
          split del: if_split cong: if_cong)
  qed
  from web native show ?thesis by blast
qed

theorem include_code_examples_flag_witness:
  "get_web_component exampleContent
     [(''component'', JStr ''button''), (''include_code_examples'', JStr ''false'')] =
     Inr [TextContent
       (''# Button'' @ [LF, LF] @ ''**Category:** Controls'' @ [LF] @
        ''**Component ID:** '' @ [BT] @ ''button'' @ [BT, LF, LF] @
        ''## Overview'' @ [LF] @ ''Buttons get focus. Focus is visible.'' @ [LF, LF] @
        ''## Gherkin Acceptance Criteria'' @ [LF] @ ''Given a button'' @ [LF, LF] @
        ''## Developer Notes & Code Examples'' @ [LF] @ ''Use the button element'' @ [LF])] \<and>
   get_web_component exampleContent [(''component'', JStr ''button'')] =
     Inr [TextContent
       (''# Button'' @ [LF, LF] @ ''**Category:** Controls'' @ [LF] @
        ''**Component ID:** '' @ [BT] @ ''button'' @ [BT, LF, LF] @
        ''## Overview'' @ [LF] @ ''Buttons get focus. Focus is visible.'' @ [LF, LF] @
        ''## Gherkin Acceptance Criteria'' @ [LF] @ ''Given a button'' @ [LF, LF] @
        ''## Developer Notes & Code Examples'' @ [LF] @ ''Use the button element'' @ [LF])] \<and>
   get_web_component exampleContent
     [(''component'', JStr ''button''), (''include_code_examples'', JBool False)] =
     Inr [TextContent
       (''# Button'' @ [LF, LF] @ ''**Category:** Controls'' @ [LF] @
        ''**Component ID:** '' @ [BT] @ ''button'' @ [BT, LF, LF] @
        ''## Overview'' @ [LF] @ ''Buttons get focus. Focus is visible.'' @ [LF, LF] @
        ''## Gherkin Acceptance Criteria'' @ [LF] @ ''Given a button'' @ [LF, LF])] \<and>
   get_native_component exampleContent
     [(''component'', JStr ''switch''), (''include_code_examples'', JNum 0)] =
     Inr [TextContent
       (''# Switch (Native)'' @ [LF, LF] @ ''**Category:** Controls'' @ [LF] @
        ''**Component ID:** '' @ [BT] @ ''switch'' @ [BT, LF, LF] @
        ''## iOS Developer Notes (VoiceOver)'' @ [LF] @ ''Use UISwitch'' @ [LF, LF] @
        ''## Android Developer Notes (TalkBack)'' @ [LF] @ ''Use SwitchCompat'' @ [LF, LF] @
        ''## General Developer Notes'' @ [LF] @ ''Keep the label short'' @ [LF])] \<and>
   get_native_component exampleContent
     [(''component'', JStr ''switch''), (''include_code_examples'', JBool False)] =
     Inr [TextContent
       (''# Switch (Native)'' @ [LF, LF] @ ''**Category:** Controls'' @ [LF] @
        ''**Component ID:** '' @ [BT] @ ''switch'' @ [BT, LF, LF])]"
proof -
  have w: "findComponent exampleContent ''web'' (JStr ''button'') = Inr (Some (withCategory controls button))"
    by code_simp
  have n: "findComponent exampleContent ''native'' (JStr ''switch'') =
      Inr (Some (withCategory nativeControls switch))"
    by code_simp
  have ws: "webSections (withCategory controls button) =
      ''# Button'' @ [LF, LF] @ ''**Category:** Controls'' @ [LF] @
      ''**Component ID:** '' @ [BT] @ ''button'' @ [BT, LF, LF] @
      ''## Overview'' @ [LF] @ ''Buttons get focus. Focus is visible.'' @ [LF, LF] @
      ''## Gherkin Acceptance Criteria'' @ [LF] @ ''Given a button'' @ [LF, LF]"
    by code_simp
  have wc: "webCodeExamples (withCategory controls button) =
      ''## Developer Notes & Code Examples'' @ [LF] @ ''Use the button element'' @ [LF]"
    by code_simp
  have ns: "nativeSections (withCategory nativeControls switch) =
      ''# Switch (Native)'' @ [LF, LF] @ ''**Category:** Controls'' @ [LF] @
      ''**Component ID:** '' @ [BT] @ ''switch'' @ [BT, LF, LF]"
    by code_simp
  have nc: "nativeCodeExamples (withCategory nativeControls switch) =
      ''## iOS Developer Notes (VoiceOver)'' @ [LF] @ ''Use UISwitch'' @ [LF, LF] @
      ''## Android Developer Notes (TalkBack)'' @ [LF] @ ''Use SwitchCompat'' @ [LF, LF] @
      ''## General Developer Notes'' @ [LF] @ ''Keep the label short'' @ [LF]"
    by code_simp
  have run1:
    "get_web_component exampleContent
     [(''component'', JStr ''button''), (''include_code_examples'', JStr ''false'')] =
     Inr [TextContent
       (''# Button'' @ [LF, LF] @ ''**Category:** Controls'' @ [LF] @
        ''**Component ID:** '' @ [BT] @ ''button'' @ [BT, LF, LF] @
        ''## Overview'' @ [LF] @ ''Buttons get focus. Focus is visible.'' @ [LF, LF] @
        ''## Gherkin Acceptance Criteria'' @ [LF] @ ''Given a button'' @ [LF, LF] @
        ''## Developer Notes & Code Examples'' @ [LF] @ ''Use the button element'' @ [LF])]"
    by code_simp
  have run2:
    "get_web_component exampleContent [(''component'', JStr ''button'')] =
     Inr [TextContent
       (''# Button'' @ [LF, LF] @ ''**Category:** Controls'' @ [LF] @
        ''**Component ID:** '' @ [BT] @ ''button'' @ [BT, LF, LF] @
        ''## Overview'' @ [LF] @ ''Buttons get focus. Focus is visible.'' @ [LF, LF] @
        ''## Gherkin Acceptance Criteria'' @ [LF] @ ''Given a button'' @ [LF, LF] @
        ''## Developer Notes & Code Examples'' @ [LF] @ ''Use the button element'' @ [LF])]"
    by code_simp
  have run3:
    "get_web_component exampleContent
     [(''component'', JStr ''button''), (''include_code_examples'', JBool False)] =
     Inr [TextContent
       (''# Button'' @ [LF, LF] @ ''**Category:** Controls'' @ [LF] @
        ''**Component ID:** '' @ [BT] @ ''button'' @ [BT, LF, LF] @
        ''## Overview'' @ [LF] @ ''Buttons get focus. Focus is visible.'' @ [LF, LF] @
        ''## Gherkin Acceptance Criteria'' @ [LF] @ ''Given a button'' @ [LF, LF])]"
    by code_simp
  have run4:
    "get_native_component exampleContent
     [(''component'', JStr ''switch''), (''include_code_examples'', JNum 0)] =
     Inr [TextContent
       (''# Switch (Native)'' @ [LF, LF] @ ''**Category:** Controls'' @ [LF] @
        ''**Component ID:** '' @ [BT] @ ''switch'' @ [BT, LF, LF] @
        ''## iOS Developer Notes (VoiceOver)'' @ [LF] @ ''Use UISwitch'' @ [LF, LF] @
        ''## Android Developer Notes (TalkBack)'' @ [LF] @ ''Use SwitchCompat'' @ [LF, LF] @
        ''## General Developer Notes'' @ [LF] @ ''Keep the label short'' @ [LF])]"
    by code_simp
  have run5:
    "get_native_component exampleContent
     [(''component'', JStr ''switch''), (''include_code_examples'', JBool False)] =
     Inr [TextContent
       (''# Switch (Native)'' @ [LF, LF] @ ''**Category:** Controls'' @ [LF] @
        ''**Component ID:** '' @ [BT] @ ''switch'' @ [BT, LF, LF])]"
    by code_simp
  note flag = include_code_examples_flag [of exampleContent _ "withCategory controls button"
      "withCategory nativeControls switch"]
  from flag [of "[(''component'', JStr ''button''), (''include_code_examples'', JStr ''false'')]"]
    flag [of "[(''component'', JStr ''button'')]"]
    flag [of "[(''component'', JStr ''button''), (''include_code_examples'', JBool False)]"]
    flag [of "[(''component'', JStr ''switch''), (''include_code_examples'', JNum 0)]"]
    flag [of "[(''component'', JStr ''switch''), (''include_code_examples'', JBool False)]"]
    w n run1 run2 run3 run4 run5
  show ?thesis unfolding ws wc ns nc by (simp add: arg_def)
qed




end
